theory Spec2Isabelle
  imports Complex_Main "HOL-Library.AList"
begin

section \<open>JavaScript values\<close>

text \<open>
  The dashboard receives its data through \<open>JSON.parse\<close>, and the field \<open>data\<close> of a message
  is typed \<open>any\<close>: the handlers inspect it with truthiness tests, \<open>typeof\<close>,
  \<open>Array.isArray\<close> and property reads. The embedding therefore works on JSON values.
  A property read that yields \<open>undefined\<close> is \<open>None\<close>. Numbers are modelled as reals
  (\<open>JSON.parse\<close> produces neither NaN nor an infinity for ordinary payloads); rounding of
  doubles is not modelled. An object is the list of its own enumerable properties in
  enumeration order; a parsed object has no duplicate keys, and a read takes the first
  binding.
\<close>

datatype json =
    JNull
  | JBool bool
  | JNum real
  | JStr string
  | JArr "json list"
  | JObj "(string \<times> json) list"

datatype error = TypeError | NotEmbedded

text \<open>Decimal rendering of an array index, as used for the keys of an array or a string.\<close>

fun dec :: "nat \<Rightarrow> string" where
  "dec n = (if n < 10 then [''0123456789'' ! n]
            else dec (n div 10) @ [''0123456789'' ! (n mod 10)])"

declare dec.simps [simp del]

definition indexed :: "json list \<Rightarrow> (string \<times> json) list" where
  "indexed xs = zip (map dec [0..<length xs]) xs"

text \<open>
  The own enumerable properties of a value: what an object spread \<open>{...v}\<close> copies, and
  what \<open>Object.entries\<close> lists for an object.
\<close>

fun own_props :: "json \<Rightarrow> (string \<times> json) list" where
  "own_props (JObj kvs) = kvs"
| "own_props (JArr xs) = indexed xs"
| "own_props (JStr s) = indexed (map (\<lambda>c. JStr [c]) s)"
| "own_props _ = []"

text \<open>
  The property read \<open>v.k\<close> for a value \<open>v\<close> that is not \<open>null\<close> (on \<open>null\<close> and
  \<open>undefined\<close> the read throws a TypeError, which every caller below tests first). The
  keys read by the dashboard are none of the inherited ones (\<open>length\<close>, \<open>constructor\<close>).
\<close>

definition js_get :: "json \<Rightarrow> string \<Rightarrow> json option" where
  "js_get v k = map_of (own_props v) k"

fun truthy :: "json \<Rightarrow> bool" where
  "truthy JNull = False"
| "truthy (JBool b) = b"
| "truthy (JNum n) = (n \<noteq> 0)"
| "truthy (JStr s) = (s \<noteq> [])"
| "truthy (JArr xs) = True"
| "truthy (JObj kvs) = True"

text \<open>\<open>a || b\<close> on two possibly undefined values, and \<open>a || d\<close> with a literal \<open>d\<close>.\<close>

definition js_or :: "json option \<Rightarrow> json option \<Rightarrow> json option" where
  "js_or a b = (case a of Some v \<Rightarrow> if truthy v then a else b | None \<Rightarrow> b)"

definition or_else :: "json option \<Rightarrow> json \<Rightarrow> json" where
  "or_else a d = (case a of Some v \<Rightarrow> if truthy v then v else d | None \<Rightarrow> d)"

text \<open>
  Strict equality \<open>===\<close>. Two arrays or objects are compared by reference; the operands
  compared by the dashboard come from different parsed payloads or from a literal, so they
  are never the same reference.
\<close>

fun strict_eq :: "json option \<Rightarrow> json option \<Rightarrow> bool" where
  "strict_eq None None = True"
| "strict_eq (Some JNull) (Some JNull) = True"
| "strict_eq (Some (JBool a)) (Some (JBool b)) = (a = b)"
| "strict_eq (Some (JNum a)) (Some (JNum b)) = (a = b)"
| "strict_eq (Some (JStr a)) (Some (JStr b)) = (a = b)"
| "strict_eq _ _ = False"

text \<open>\<open>typeof v === 'object'\<close>. (\<open>Array.isArray(v)\<close> is matching on \<open>JArr\<close>.)\<close>

fun typeof_object :: "json \<Rightarrow> bool" where
  "typeof_object JNull = True"
| "typeof_object (JArr xs) = True"
| "typeof_object (JObj kvs) = True"
| "typeof_object _ = False"

text \<open>\<open>xs.map(f)\<close> where \<open>f\<close> may throw: the first exception aborts the whole map.\<close>

fun collect :: "(error + 'a) list \<Rightarrow> error + 'a list" where
  "collect [] = Inr []"
| "collect (x # xs) =
     (case x of
        Inl e \<Rightarrow> Inl e
      | Inr v \<Rightarrow> (case collect xs of Inl e \<Rightarrow> Inl e | Inr vs \<Rightarrow> Inr (v # vs)))"

section \<open>Component state\<close>

datatype status = Connecting | Connected | Disconnected | Error

text \<open>
  The React state and refs of \<open>UaeParkingDashboard\<close> that the connection manager, the
  message handler and the simulation read or write. \<open>wsConnection\<close> is \<open>True\<close> while the
  state holds a socket object. \<open>reconnectTimeoutRef\<close> holds the delay of the timer last
  stored in the ref. \<open>mounted\<close> says whether React still has the component mounted.
  \<open>driftInterval\<close> is the one-minute interval installed by the last commit of the
  interval effect, if any, with the value of \<open>connectionStatus\<close> that its callback
  captured when it was created (\<open>useCallback\<close> with \<open>[connectionStatus]\<close>).
\<close>

record dashboard =
  parkingSlots :: "json list"
  connectionStatus :: status
  wsConnection :: bool
  reconnectAttempts :: nat
  reconnectTimeoutRef :: "nat option"
  lastMessageTime :: real
  backendStatus :: "json option"
  statusHistory :: "(real \<times> json) list"
  mounted :: bool
  driftInterval :: "status option"

definition maxReconnectAttempts :: nat where
  "maxReconnectAttempts = 5"

text \<open>
  The component after its first render and the first run of the interval effect, before
  the mount effect calls \<open>connectWebSocket\<close>: the status is \<open>disconnected\<close>, and the
  interval is installed with a callback that captured this status.
\<close>

definition initial :: "real \<Rightarrow> dashboard" where
  "initial t0 = \<lparr> parkingSlots = [], connectionStatus = Disconnected, wsConnection = False,
     reconnectAttempts = 0, reconnectTimeoutRef = None, lastMessageTime = t0,
     backendStatus = None, statusHistory = [], mounted = True,
     driftInterval = Some Disconnected \<rparr>"

section \<open>Connection manager\<close>

text \<open>
  \<open>connectWebSocket\<close>: \<open>isOpen\<close> says whether \<open>wsRef.current?.readyState\<close> is
  \<open>WebSocket.OPEN\<close>, \<open>ctorThrows\<close> whether \<open>new WebSocket(wsUrl)\<close> throws.
\<close>

definition connectWebSocket :: "bool \<Rightarrow> bool \<Rightarrow> dashboard \<Rightarrow> dashboard" where
  "connectWebSocket isOpen ctorThrows st =
     (if isOpen then st
      else if ctorThrows then st\<lparr>connectionStatus := Error\<rparr>
      else st\<lparr>connectionStatus := Connecting\<rparr>)"

definition onopen :: "dashboard \<Rightarrow> dashboard" where
  "onopen st = st\<lparr>connectionStatus := Connected, wsConnection := True, reconnectAttempts := 0\<rparr>"

text \<open>\<open>Math.min(1000 * Math.pow(2, reconnectAttempts.current), 30000)\<close>, in milliseconds.\<close>

definition reconnectDelay :: "nat \<Rightarrow> nat" where
  "reconnectDelay attempts = min (1000 * 2 ^ attempts) 30000"

text \<open>
  \<open>ws.onclose\<close> for a close event with the given code. The second component is the delay of
  the \<open>setTimeout\<close> issued by this call, \<open>None\<close> when the handler schedules nothing.
\<close>

definition onclose :: "nat \<Rightarrow> dashboard \<Rightarrow> dashboard \<times> nat option" where
  "onclose code st =
     (let st1 = st\<lparr>connectionStatus := Disconnected, wsConnection := False\<rparr>
      in if code \<noteq> 1000 \<and> reconnectAttempts st1 < maxReconnectAttempts
         then (let delay = reconnectDelay (reconnectAttempts st1)
               in (st1\<lparr>reconnectAttempts := reconnectAttempts st1 + 1,
                        reconnectTimeoutRef := Some delay\<rparr>, Some delay))
         else (st1, None))"

definition onerror :: "dashboard \<Rightarrow> dashboard" where
  "onerror st = st\<lparr>connectionStatus := Error\<rparr>"

section \<open>Message handling\<close>

text \<open>
  The object literal built for an element of a \<open>displays\<close> array or of a bare array
  (the three identical \<open>map\<close> callbacks of \<open>handleWebSocketMessage\<close>). All reads of
  \<open>Date.now()\<close> within one handler call are taken to return the same \<open>now\<close>.
\<close>

definition normalizeSlot :: "real \<Rightarrow> json \<Rightarrow> error + json" where
  "normalizeSlot now slot =
     (if slot = JNull then Inl TypeError
      else Inr (JObj
        [(''id'', or_else (js_or (js_get slot ''id'') (js_get slot ''slot_id'')) (JStr ''Unknown'')),
         (''state'', or_else (js_or (js_get slot ''state'') (js_get slot ''status'')) (JStr ''free'')),
         (''lastUpdated'',
            or_else (js_or (js_get slot ''lastUpdated'') (js_get slot ''timestamp'')) (JNum now)),
         (''zone'', or_else (js_get slot ''zone'') (JStr ''A'')),
         (''floor'', or_else (js_get slot ''floor'') (JNum 1)),
         (''duration'', or_else (js_get slot ''duration'') (JNum 0))]))"

text \<open>
  The callback of \<open>Object.entries(displaysData).forEach\<close>: an entry whose value is an array
  or an object pushes one record with the key as id; any other entry pushes nothing.
\<close>

definition entrySlot :: "real \<Rightarrow> string \<times> json \<Rightarrow> json list" where
  "entrySlot now kv =
     (case kv of (key, val) \<Rightarrow>
        if typeof_object val \<and> val \<noteq> JNull
        then [JObj
          [(''id'', JStr key),
           (''state'', or_else (js_or (js_get val ''state'') (js_get val ''status'')) (JStr ''free'')),
           (''lastUpdated'',
              or_else (js_or (js_get val ''lastUpdated'') (js_get val ''timestamp'')) (JNum now)),
           (''zone'', or_else (js_get val ''zone'') (JStr ''A'')),
           (''floor'', or_else (js_get val ''floor'') (JNum 1)),
           (''duration'', or_else (js_get val ''duration'') (JNum 0))]]
        else [])"

text \<open>
  The records taken from \<open>displaysData\<close> once \<open>displays && typeof displays === 'object'\<close>
  holds: an array is mapped, any other object is walked entry by entry.
\<close>

fun displaysSlots :: "real \<Rightarrow> json \<Rightarrow> error + json list" where
  "displaysSlots now (JArr xs) = collect (map (normalizeSlot now) xs)"
| "displaysSlots now (JObj kvs) = Inr (concat (map (entrySlot now) kvs))"
| "displaysSlots now _ = Inr []"

text \<open>
  The value of the local \<open>slots\<close> at the end of the \<open>if / else if\<close> chain of the
  \<open>initial_data\<close> case, for \<open>data\<close> an array or an object. A \<open>slots\<close> array is taken as it
  is; the elements of a \<open>displays\<close> collection or of a bare array are rebuilt.
\<close>

definition initialDataSlots :: "real \<Rightarrow> json \<Rightarrow> error + json list" where
  "initialDataSlots now data =
     (case js_get data ''slots'' of
        Some (JArr xs) \<Rightarrow> Inr xs
      | _ \<Rightarrow>
        (case js_get data ''displays'' of
           Some (JArr ds) \<Rightarrow> displaysSlots now (JArr ds)
         | Some (JObj kvs) \<Rightarrow> displaysSlots now (JObj kvs)
         | _ \<Rightarrow>
           (case data of
              JArr xs \<Rightarrow> collect (map (normalizeSlot now) xs)
            | _ \<Rightarrow> Inr [])))"

text \<open>
  \<open>{ ...slot, ...update, lastUpdated: update.lastUpdated || Date.now() }\<close>, for an
  \<open>update\<close> that is not \<open>null\<close>.
\<close>

definition mergeUpdate :: "real \<Rightarrow> json \<Rightarrow> json \<Rightarrow> json" where
  "mergeUpdate now slot upd =
     JObj (AList.update ''lastUpdated'' (or_else (js_get upd ''lastUpdated'') (JNum now))
             (AList.merge (own_props slot) (own_props upd)))"

text \<open>
  \<open>updatedSlots.findIndex(slot => slot.id === update.id)\<close>: \<open>None\<close> is the result \<open>-1\<close>.
  The callback throws on a \<open>null\<close> slot, and on a \<open>null\<close> update once a slot is visited.
\<close>

fun findIndexById :: "json \<Rightarrow> json list \<Rightarrow> error + nat option" where
  "findIndexById upd [] = Inr None"
| "findIndexById upd (slot # slots) =
     (if slot = JNull \<or> upd = JNull then Inl TypeError
      else if strict_eq (js_get slot ''id'') (js_get upd ''id'') then Inr (Some 0)
      else (case findIndexById upd slots of
              Inl e \<Rightarrow> Inl e
            | Inr None \<Rightarrow> Inr None
            | Inr (Some i) \<Rightarrow> Inr (Some (Suc i))))"

text \<open>The body of \<open>bulkData.updates.forEach\<close> for one update.\<close>

definition applyUpdate :: "real \<Rightarrow> json \<Rightarrow> json list \<Rightarrow> error + json list" where
  "applyUpdate now upd updatedSlots =
     (case findIndexById upd updatedSlots of
        Inl e \<Rightarrow> Inl e
      | Inr None \<Rightarrow> Inr updatedSlots
      | Inr (Some index) \<Rightarrow>
          Inr (updatedSlots[index := mergeUpdate now (updatedSlots ! index) upd]))"

fun applyUpdates :: "real \<Rightarrow> json list \<Rightarrow> json list \<Rightarrow> error + json list" where
  "applyUpdates now [] updatedSlots = Inr updatedSlots"
| "applyUpdates now (upd # upds) updatedSlots =
     (case applyUpdate now upd updatedSlots of
        Inl e \<Rightarrow> Inl e
      | Inr next_slots \<Rightarrow> applyUpdates now upds next_slots)"

text \<open>
  The state updater of the \<open>bulk_update\<close> case. Reading \<open>updates\<close> of an absent or \<open>null\<close>
  \<open>data\<close> throws, and so does calling \<open>forEach\<close> on anything but an array.
\<close>

definition bulkUpdate :: "real \<Rightarrow> json option \<Rightarrow> json list \<Rightarrow> error + json list" where
  "bulkUpdate now bulkData prevSlots =
     (case bulkData of
        None \<Rightarrow> Inl TypeError
      | Some JNull \<Rightarrow> Inl TypeError
      | Some d \<Rightarrow>
          (case js_get d ''updates'' of
             Some (JArr upds) \<Rightarrow> applyUpdates now upds prevSlots
           | _ \<Rightarrow> Inl TypeError))"

text \<open>
  The state updater of the \<open>single_update\<close> case, and the callback of its \<open>map\<close>. With
  an absent or \<open>null\<close> \<open>data\<close> the callback throws at the first record it visits, so the
  updater throws unless the store is empty.
\<close>

definition singleUpdateSlot :: "real \<Rightarrow> json \<Rightarrow> json \<Rightarrow> error + json" where
  "singleUpdateSlot now upd slot =
     (if slot = JNull then Inl TypeError
      else if strict_eq (js_get slot ''id'') (js_get upd ''id'') then Inr (mergeUpdate now slot upd)
      else Inr slot)"

definition singleUpdate :: "real \<Rightarrow> json option \<Rightarrow> json list \<Rightarrow> error + json list" where
  "singleUpdate now data prevSlots =
     (case data of
        None \<Rightarrow> if prevSlots = [] then Inr [] else Inl TypeError
      | Some JNull \<Rightarrow> if prevSlots = [] then Inr [] else Inl TypeError
      | Some upd \<Rightarrow> collect (map (singleUpdateSlot now upd) prevSlots))"

text \<open>\<open>[...prev.slice(-9), { timestamp: Date.now(), data: message.data }]\<close>.\<close>

definition pushHistory :: "real \<Rightarrow> json \<Rightarrow> (real \<times> json) list \<Rightarrow> (real \<times> json) list" where
  "pushHistory now data prev = drop (length prev - 9) prev @ [(now, data)]"

text \<open>
  A function passed to \<open>setParkingSlots\<close> is run by React while it renders, outside the
  \<open>try / catch\<close> of \<open>ws.onmessage\<close>. When it throws, React unmounts the component (the
  file has no error boundary): the cleanups of the effects clear the interval and the retry
  timer and close the socket with code 1000, and the state is gone. The fields of the
  record other than the refs are then no longer read.
\<close>

definition unmount :: "dashboard \<Rightarrow> dashboard" where
  "unmount st = st\<lparr>mounted := False, driftInterval := None\<rparr>"

text \<open>
  The outcome of a state updater for the store: its result becomes the store, its
  exception unmounts the component. An updater sees the result of the updaters queued
  before it, so its outcome does not depend on when React runs it.
\<close>

definition commitUpdater :: "dashboard \<Rightarrow> error + json list \<Rightarrow> dashboard" where
  "commitUpdater st r = (case r of Inl e \<Rightarrow> unmount st | Inr slots \<Rightarrow> st\<lparr>parkingSlots := slots\<rparr>)"

text \<open>
  The log lines that close the \<open>bulk_update\<close> and \<open>single_update\<close> cases read
  \<open>bulkData.updateCount\<close> and \<open>singleUpdate.id\<close>: on an absent or \<open>null\<close> \<open>data\<close> they
  throw, inside the handler and after the updater has been queued.
\<close>

definition logLineError :: "json option \<Rightarrow> error option" where
  "logLineError data =
     (case data of None \<Rightarrow> Some TypeError | Some JNull \<Rightarrow> Some TypeError | Some d \<Rightarrow> None)"

text \<open>
  \<open>setParkingSlots(slots)\<close> with a value, under the guard \<open>slots.length > 0\<close>. The
  extraction that produces \<open>slots\<close> runs inside the handler, so its exception ends the
  handler call, before any write to the store, and is caught by \<open>ws.onmessage\<close>.
\<close>

definition setSlotsIfAny :: "dashboard \<Rightarrow> error + json list \<Rightarrow> error option \<times> dashboard" where
  "setSlotsIfAny st r =
     (case r of
        Inl e \<Rightarrow> (Some e, st)
      | Inr slots \<Rightarrow> if length slots > 0 then (None, st\<lparr>parkingSlots := slots\<rparr>) else (None, st))"

definition handleInitialData :: "real \<Rightarrow> json option \<Rightarrow> dashboard \<Rightarrow> error option \<times> dashboard" where
  "handleInitialData now data st =
     (case data of
        Some (JArr xs) \<Rightarrow> setSlotsIfAny st (initialDataSlots now (JArr xs))
      | Some (JObj kvs) \<Rightarrow> setSlotsIfAny st (initialDataSlots now (JObj kvs))
      | _ \<Rightarrow> (None, st))"

text \<open>
  The \<open>status\<close> case: the payload is stored and logged first; only its \<open>displays\<close> field is
  searched for slot records.
\<close>

definition handleStatus :: "real \<Rightarrow> json option \<Rightarrow> dashboard \<Rightarrow> error option \<times> dashboard" where
  "handleStatus now data st =
     (case data of
        None \<Rightarrow> (None, st)
      | Some d \<Rightarrow>
          if truthy d \<and> typeof_object d
          then (let st1 = st\<lparr>backendStatus := Some d,
                              statusHistory := pushHistory now d (statusHistory st)\<rparr>
                in case js_get d ''displays'' of
                     Some (JArr ds) \<Rightarrow> setSlotsIfAny st1 (displaysSlots now (JArr ds))
                   | Some (JObj kvs) \<Rightarrow> setSlotsIfAny st1 (displaysSlots now (JObj kvs))
                   | _ \<Rightarrow> (None, st1))
          else (None, st))"

text \<open>The \<open>default\<close> case: a \<open>slots\<close> array is stored as it is, also when it is empty.\<close>

definition handleDefault :: "json option \<Rightarrow> dashboard \<Rightarrow> error option \<times> dashboard" where
  "handleDefault data st =
     (case data of
        None \<Rightarrow> (None, st)
      | Some d \<Rightarrow>
          if truthy d \<and> (case js_or (js_get d ''slots'') (js_get d ''displays'') of
                            Some v \<Rightarrow> truthy v | None \<Rightarrow> False)
          then (case js_get d ''slots'' of
                  Some (JArr xs) \<Rightarrow> (None, st\<lparr>parkingSlots := xs\<rparr>)
                | _ \<Rightarrow> (None, st))
          else (None, st))"

text \<open>
  \<open>handleWebSocketMessage\<close>: the first component is the exception that ends the call
  itself, if any; reading \<open>message.type\<close> of \<open>null\<close> throws. The exception of a queued
  updater is not one of these: it shows as the unmount of the returned state.
\<close>

definition handleWebSocketMessage :: "real \<Rightarrow> json \<Rightarrow> dashboard \<Rightarrow> error option \<times> dashboard" where
  "handleWebSocketMessage now message st =
     (if message = JNull then (Some TypeError, st)
      else
        (let ty = js_get message ''type''; data = js_get message ''data''
         in if strict_eq ty (Some (JStr ''initial_data'')) then handleInitialData now data st
            else if strict_eq ty (Some (JStr ''bulk_update''))
              then (logLineError data, commitUpdater st (bulkUpdate now data (parkingSlots st)))
            else if strict_eq ty (Some (JStr ''single_update''))
              then (logLineError data, commitUpdater st (singleUpdate now data (parkingSlots st)))
            else if strict_eq ty (Some (JStr ''system_status'')) then (None, st)
            else if strict_eq ty (Some (JStr ''status'')) then handleStatus now data st
            else if strict_eq ty (Some (JStr ''ping'')) then (None, st)
            else if strict_eq ty (Some (JStr ''error'')) then (None, st)
            else handleDefault data st))"

text \<open>
  \<open>ws.onmessage\<close>: \<open>None\<close> is a frame on which \<open>JSON.parse\<close> throws. The \<open>try / catch\<close>
  absorbs the exceptions of the handler call; the exception of an updater escapes it, and
  the state returned by the handler is then unmounted.
\<close>

definition onmessage :: "real \<Rightarrow> json option \<Rightarrow> dashboard \<Rightarrow> dashboard" where
  "onmessage now frame st =
     (case frame of
        None \<Rightarrow> st
      | Some message \<Rightarrow> snd (handleWebSocketMessage now message (st\<lparr>lastMessageTime := now\<rparr>)))"

section \<open>Fallback simulation\<close>

text \<open>
  \<open>(slot.duration || 0) + 1\<close>. For a number (or \<open>true\<close>) the sum is numeric. For a
  string, an array or an object the operator concatenates strings, and the comparisons
  that follow convert the string back to a number: that part of JavaScript is outside this
  embedding and is reported as \<open>NotEmbedded\<close>. The interface \<open>ParkingSlot\<close> declares
  \<open>duration?: number\<close>.
\<close>

definition durationPlusOne :: "json \<Rightarrow> error + real" where
  "durationPlusOne slot =
     (case or_else (js_get slot ''duration'') (JNum 0) of
        JNum n \<Rightarrow> Inr (n + 1)
      | JBool b \<Rightarrow> Inr ((if b then 1 else 0) + 1)
      | JNull \<Rightarrow> Inr 1
      | _ \<Rightarrow> Inl NotEmbedded)"

text \<open>
  The value of \<open>changeProbability\<close> when it is compared with the random draw. The decimal
  constants are taken as exact reals.
\<close>

definition changeProbability :: "json \<Rightarrow> real \<Rightarrow> real" where
  "changeProbability slot newDuration =
     (let p0 = (if strict_eq (js_get slot ''floor'') (Some (JNum 1)) then 0.04
                else if strict_eq (js_get slot ''floor'') (Some (JNum 3)) then 0.01
                else 0.02);
          p1 = (if strict_eq (js_get slot ''state'') (Some (JStr ''occupied'')) \<and> newDuration > 60
                then p0 * 2 else p0)
      in if strict_eq (js_get slot ''state'') (Some (JStr ''free'')) \<and> newDuration > 10
         then p1 * 1.5 else p1)"

text \<open>
  The callback of \<open>prevSlots.map\<close> in \<open>simulateRealisticParking\<close>, with \<open>draw\<close> the value
  returned by \<open>Math.random()\<close> for this slot.
\<close>

definition driftSlot :: "real \<Rightarrow> real \<Rightarrow> json \<Rightarrow> error + json" where
  "driftSlot now draw slot =
     (if slot = JNull then Inl TypeError
      else
        (case durationPlusOne slot of
           Inl e \<Rightarrow> Inl e
         | Inr newDuration \<Rightarrow>
             if draw < changeProbability slot newDuration
             then Inr (JObj
               (AList.update ''duration'' (JNum 0)
                 (AList.update ''lastUpdated'' (JNum now)
                   (AList.update ''state''
                      (JStr (if strict_eq (js_get slot ''state'') (Some (JStr ''free''))
                             then ''occupied'' else ''free''))
                      (own_props slot)))))
             else Inr (JObj (AList.update ''duration'' (JNum newDuration) (own_props slot)))))"

text \<open>The map over the store: slot number \<open>i\<close> of the tick receives the draw \<open>rnd i\<close>.\<close>

fun driftFrom :: "real \<Rightarrow> (nat \<Rightarrow> real) \<Rightarrow> nat \<Rightarrow> json list \<Rightarrow> error + json list" where
  "driftFrom now rnd i [] = Inr []"
| "driftFrom now rnd i (slot # slots) =
     (case driftSlot now (rnd i) slot of
        Inl e \<Rightarrow> Inl e
      | Inr slot' \<Rightarrow>
          (case driftFrom now rnd (Suc i) slots of
             Inl e \<Rightarrow> Inl e
           | Inr slots' \<Rightarrow> Inr (slot' # slots')))"

text \<open>
  \<open>simulateRealisticParking\<close> as created by a render in which \<open>connectionStatus\<close> had the
  value \<open>captured\<close>: the guard tests that captured value, not the status at the time of
  the tick. A TypeError of the updater unmounts the component; a record outside the
  embedding is reported and the state left as it is.
\<close>

definition simulateRealisticParking ::
  "status \<Rightarrow> real \<Rightarrow> (nat \<Rightarrow> real) \<Rightarrow> dashboard \<Rightarrow> error option \<times> dashboard" where
  "simulateRealisticParking captured now rnd st =
     (if captured = Connected then (None, st)
      else
        (case driftFrom now rnd 0 (parkingSlots st) of
           Inl NotEmbedded \<Rightarrow> (Some NotEmbedded, st)
         | Inl TypeError \<Rightarrow> (None, unmount st)
         | Inr slots \<Rightarrow> (None, st\<lparr>parkingSlots := slots\<rparr>)))"

text \<open>
  The effect that owns the one-minute interval, as React commits it after a render: the
  cleanup of the previous run clears the old interval, and a new one is installed, with
  the callback of this render, when the status is not \<open>connected\<close>.
\<close>

definition driftEffect :: "dashboard \<Rightarrow> dashboard" where
  "driftEffect st =
     st\<lparr>driftInterval :=
          (if connectionStatus st \<noteq> Connected then Some (connectionStatus st) else None)\<rparr>"

section \<open>Statistics\<close>

text \<open>
  The counting fields of \<open>stats\<close>. \<open>averageOccupancyTime\<close>, \<open>peakHours\<close> and
  \<open>lastUpdated\<close> are not embedded. The filters throw on a \<open>null\<close> slot.
\<close>

record parkingStats =
  totalSlots :: nat
  freeSlots :: nat
  occupiedSlots :: nat
  occupancyRate :: real

definition getSlotsForFloor :: "real \<Rightarrow> json list \<Rightarrow> json list" where
  "getSlotsForFloor floorNo slots =
     filter (\<lambda>slot. strict_eq (js_get slot ''floor'') (Some (JNum floorNo))) slots"

definition isFreeSlot :: "json \<Rightarrow> bool" where
  "isFreeSlot slot =
     (strict_eq (js_get slot ''state'') (Some (JStr ''free''))
      \<or> strict_eq (js_get slot ''state'') (Some (JStr ''available'')))"

definition isOccupiedSlot :: "json \<Rightarrow> bool" where
  "isOccupiedSlot slot = strict_eq (js_get slot ''state'') (Some (JStr ''occupied''))"

definition stats :: "real option \<Rightarrow> json list \<Rightarrow> error + parkingStats" where
  "stats selectedFloor slots =
     (if JNull \<in> set slots then Inl TypeError
      else
        (let slotsToAnalyze =
               (case selectedFloor of
                  Some f \<Rightarrow> if f \<noteq> 0 then getSlotsForFloor f slots else slots
                | None \<Rightarrow> slots);
             free = length (filter isFreeSlot slotsToAnalyze);
             occupied = length (filter isOccupiedSlot slotsToAnalyze);
             total = length slotsToAnalyze
         in Inr \<lparr> totalSlots = total, freeSlots = free, occupiedSlots = occupied,
                  occupancyRate = (if total > 0 then (real occupied / real total) * 100 else 0) \<rparr>))"

section \<open>Event loop\<close>

text \<open>
  Every handler runs to completion on the one JavaScript thread, so the component is a
  sequential machine over its events. What a handler passes to a state setter is written
  to the record at once. What React does afterwards is an event of its own: \<open>Render\<close> is
  a re-render with the commit of the interval effect. Until it happens the interval of
  the previous commit stays installed, with the callback of that commit. \<open>Connect\<close> is a
  call of \<open>connectWebSocket\<close> (from the mount effect or from the retry timer);
  \<open>DriftTick\<close> is a firing of the installed interval.

  The handlers of the socket stay attached after an unmount. Their state setters are then
  without effect, and only their writes to the refs remain.
\<close>

datatype event =
    Connect bool bool
  | Open
  | Message real "json option"
  | Close nat
  | Fail
  | DriftTick real "nat \<Rightarrow> real"
  | Render

definition keepRefs :: "dashboard \<Rightarrow> dashboard \<Rightarrow> dashboard" where
  "keepRefs st st' =
     (if mounted st then st'
      else st\<lparr>reconnectAttempts := reconnectAttempts st',
              reconnectTimeoutRef := reconnectTimeoutRef st'\<rparr>)"

fun step :: "event \<Rightarrow> dashboard \<Rightarrow> dashboard" where
  "step (Connect isOpen ctorThrows) st = keepRefs st (connectWebSocket isOpen ctorThrows st)"
| "step Open st = keepRefs st (onopen st)"
| "step (Message now frame) st = keepRefs st (onmessage now frame st)"
| "step (Close code) st = keepRefs st (fst (onclose code st))"
| "step Fail st = keepRefs st (onerror st)"
| "step (DriftTick now rnd) st =
     (case driftInterval st of
        None \<Rightarrow> st
      | Some captured \<Rightarrow> snd (simulateRealisticParking captured now rnd st))"
| "step Render st = (if mounted st then driftEffect st else st)"

definition run :: "event list \<Rightarrow> dashboard \<Rightarrow> dashboard" where
  "run events st = foldl (\<lambda>s e. step e s) st events"

text \<open>The id of a stored record as a reader sees it (\<open>undefined\<close> is \<open>None\<close>).\<close>

definition slot_id :: "json \<Rightarrow> json option" where
  "slot_id slot = js_get slot ''id''"

section \<open>Delta batches in the words of the specification\<close>

text \<open>
  The specification describes the merge of a delta batch record by record: for each
  delta, in order, the existing record with the delta's id is found and the delta is
  merged onto it, and a delta without such a record is discarded. \<open>mergeFirst\<close> is that
  step for one delta of a \<open>bulk_update\<close>, on the first record with the id; \<open>mergeEvery\<close>
  is the step of a \<open>single_update\<close>, on every record with the id; \<open>mergeBatch\<close> runs a
  batch. They are compared below with \<open>applyUpdate\<close>, \<open>singleUpdate\<close> and
  \<open>applyUpdates\<close>, which follow the code.
\<close>

fun mergeFirst :: "real \<Rightarrow> json \<Rightarrow> json list \<Rightarrow> json list" where
  "mergeFirst now upd [] = []"
| "mergeFirst now upd (slot # slots) =
     (if strict_eq (slot_id slot) (js_get upd ''id'') then mergeUpdate now slot upd # slots
      else slot # mergeFirst now upd slots)"

definition mergeEvery :: "real \<Rightarrow> json \<Rightarrow> json list \<Rightarrow> json list" where
  "mergeEvery now upd slots =
     map (\<lambda>slot. if strict_eq (slot_id slot) (js_get upd ''id'')
                 then mergeUpdate now slot upd else slot) slots"

definition mergeBatch :: "real \<Rightarrow> json list \<Rightarrow> json list \<Rightarrow> json list" where
  "mergeBatch now upds slots = foldl (\<lambda>cur upd. mergeFirst now upd cur) slots upds"

section \<open>Sample data\<close>

definition demoStore :: "json list" where
  "demoStore = [JObj [(''id'', JStr ''A1''), (''state'', JStr ''free''), (''duration'', JNum 2)]]"

text \<open>The record of the scenario snapshot, and a message \<open>{type, data}\<close>.\<close>

definition a1Record :: json where
  "a1Record = JObj [(''id'', JStr ''A1''), (''state'', JStr ''occupied''), (''floor'', JNum 1),
                    (''zone'', JStr ''A'')]"

definition b2Record :: json where
  "b2Record = JObj [(''id'', JStr ''B2'')]"


definition envelope :: "string \<Rightarrow> json \<Rightarrow> json" where
  "envelope ty data = JObj [(''type'', JStr ty), (''data'', data)]"

text \<open>A stored record with every field, and deltas for it and for an unknown id.\<close>

definition a1Stamped :: json where
  "a1Stamped = JObj [(''id'', JStr ''A1''), (''state'', JStr ''occupied''),
                     (''lastUpdated'', JNum 1000), (''zone'', JStr ''A''), (''floor'', JNum 1),
                     (''duration'', JNum 7)]"

definition a1Freed :: json where
  "a1Freed = JObj [(''id'', JStr ''A1''), (''state'', JStr ''free''),
                   (''lastUpdated'', JNum 5000), (''zone'', JStr ''A''), (''floor'', JNum 1),
                   (''duration'', JNum 7)]"

definition z9Delta :: json where
  "z9Delta = JObj [(''id'', JStr ''Z9''), (''state'', JStr ''occupied'')]"

definition a1Delta :: json where
  "a1Delta = JObj [(''id'', JStr ''A1''), (''state'', JStr ''free'')]"

definition a1Epoch :: json where
  "a1Epoch = JObj [(''id'', JStr ''A1''), (''lastUpdated'', JNum 0)]"

text \<open>Two records that differ only in the spelling of the vacant state.\<close>

definition availableLong :: json where
  "availableLong = JObj [(''id'', JStr ''A7''), (''state'', JStr ''available''),
                         (''lastUpdated'', JNum 1000), (''zone'', JStr ''A''), (''floor'', JNum 2),
                         (''duration'', JNum 15)]"

definition freeLong :: json where
  "freeLong = JObj [(''id'', JStr ''A7''), (''state'', JStr ''free''),
                    (''lastUpdated'', JNum 1000), (''zone'', JStr ''A''), (''floor'', JNum 2),
                    (''duration'', JNum 15)]"


definition halfDraws :: "nat \<Rightarrow> real" where
  "halfDraws i = 1 / 2"

text \<open>
  A session: connect, open, a snapshot with the record A1, an abnormal close, the retry,
  and its open event. React has rendered after every event but the last.
\<close>

definition reopened :: "event list" where
  "reopened =
     [Connect False False, Render, Open, Render,
      Message 1000 (Some (envelope ''initial_data'' (JObj [(''slots'', JArr demoStore)]))), Render,
      Close 1006, Render, Connect False False, Render, Open]"

section \<open>The reconnect counter\<close>

lemma onclose_attempts_le:
  "reconnectAttempts st \<le> maxReconnectAttempts \<Longrightarrow>
   reconnectAttempts (fst (onclose code st)) \<le> maxReconnectAttempts"
  by (simp add: onclose_def Let_def)

lemma commitUpdater_attempts: "reconnectAttempts (commitUpdater st r) = reconnectAttempts st"
  by (simp add: commitUpdater_def unmount_def split: sum.splits)

lemma keepRefs_attempts: "reconnectAttempts (keepRefs st st') = reconnectAttempts st'"
  by (simp add: keepRefs_def)

lemma setSlotsIfAny_attempts: "reconnectAttempts (snd (setSlotsIfAny st r)) = reconnectAttempts st"
  by (simp add: setSlotsIfAny_def split: sum.splits)

lemma handleInitialData_attempts:
  "reconnectAttempts (snd (handleInitialData now data st)) = reconnectAttempts st"
  by (simp add: handleInitialData_def setSlotsIfAny_attempts split: option.splits json.splits)

lemma handleStatus_attempts:
  "reconnectAttempts (snd (handleStatus now data st)) = reconnectAttempts st"
  by (simp add: handleStatus_def Let_def setSlotsIfAny_attempts split: option.splits json.splits)

lemma handleDefault_attempts:
  "reconnectAttempts (snd (handleDefault data st)) = reconnectAttempts st"
  by (simp add: handleDefault_def split: option.splits json.splits)

lemma handleWebSocketMessage_attempts:
  "reconnectAttempts (snd (handleWebSocketMessage now message st)) = reconnectAttempts st"
  by (simp add: handleWebSocketMessage_def Let_def commitUpdater_attempts
      handleInitialData_attempts handleStatus_attempts handleDefault_attempts)

lemma onmessage_attempts: "reconnectAttempts (onmessage now frame st) = reconnectAttempts st"
  by (simp add: onmessage_def handleWebSocketMessage_attempts split: option.splits)

lemma simulate_attempts:
  "reconnectAttempts (snd (simulateRealisticParking captured now rnd st)) = reconnectAttempts st"
  by (simp add: simulateRealisticParking_def unmount_def split: sum.splits error.splits)

lemma step_attempts:
  "reconnectAttempts (step e st) =
     (case e of
        Open \<Rightarrow> 0
      | Close code \<Rightarrow>
          (case snd (onclose code st) of
             Some delay \<Rightarrow> reconnectAttempts st + 1
           | None \<Rightarrow> reconnectAttempts st)
      | _ \<Rightarrow> reconnectAttempts st)"
  by (cases e)
     (simp_all add: keepRefs_attempts connectWebSocket_def onopen_def onmessage_attempts
        onerror_def simulate_attempts onclose_def Let_def driftEffect_def split: option.splits)

lemma step_attempts_le:
  "reconnectAttempts st \<le> maxReconnectAttempts \<Longrightarrow>
   reconnectAttempts (step e st) \<le> maxReconnectAttempts"
  by (cases e)
     (simp_all add: keepRefs_attempts connectWebSocket_def onopen_def onmessage_attempts
        onerror_def simulate_attempts onclose_attempts_le driftEffect_def split: option.splits)

lemma run_attempts_le:
  "reconnectAttempts st \<le> maxReconnectAttempts \<Longrightarrow>
   reconnectAttempts (run events st) \<le> maxReconnectAttempts"
  unfolding run_def
  by (induction events arbitrary: st) (simp_all add: step_attempts_le)

text \<open>
  C10. The reconnect counter starts at 0, is reset to 0 by every open event, grows by one
  exactly when a close event schedules a retry (which happens exactly for an abnormal code
  and a counter below 5), is left alone by every other event, and is at most 5 after every
  sequence of events from the initial state.
\<close>

theorem reconnect_attempts_bounded:
  "reconnectAttempts (initial t0) = 0
   \<and> reconnectAttempts (run events (initial t0)) \<le> 5
   \<and> reconnectAttempts (step e st) =
       (case e of
          Open \<Rightarrow> 0
        | Close code \<Rightarrow>
            (case snd (onclose code st) of
               Some delay \<Rightarrow> reconnectAttempts st + 1
             | None \<Rightarrow> reconnectAttempts st)
        | _ \<Rightarrow> reconnectAttempts st)
   \<and> ((\<exists>delay. snd (onclose code st) = Some delay) = (code \<noteq> 1000 \<and> reconnectAttempts st < 5))"
proof -
  have a: "reconnectAttempts (initial t0) = 0"
    by (simp add: initial_def)
  have "reconnectAttempts (run events (initial t0)) \<le> maxReconnectAttempts"
    by (rule run_attempts_le) (simp add: a)
  then have b: "reconnectAttempts (run events (initial t0)) \<le> 5"
    by (simp add: maxReconnectAttempts_def)
  have c: "(\<exists>delay. snd (onclose code st) = Some delay) = (code \<noteq> 1000 \<and> reconnectAttempts st < 5)"
    by (simp add: onclose_def Let_def maxReconnectAttempts_def)
  show ?thesis using a b c step_attempts by blast
qed

section \<open>Backoff\<close>

lemma onclose_retry:
  "code \<noteq> 1000 \<and> reconnectAttempts st < 5 \<Longrightarrow>
     snd (onclose code st) = Some (min (1000 * 2 ^ reconnectAttempts st) 30000)
     \<and> reconnectAttempts (fst (onclose code st)) = reconnectAttempts st + 1"
  by (simp add: onclose_def Let_def maxReconnectAttempts_def reconnectDelay_def)

lemma onclose_no_retry:
  "code = 1000 \<or> 5 \<le> reconnectAttempts st \<Longrightarrow>
     snd (onclose code st) = None
     \<and> reconnectAttempts (fst (onclose code st)) = reconnectAttempts st
     \<and> reconnectTimeoutRef (fst (onclose code st)) = reconnectTimeoutRef st"
  by (auto simp add: onclose_def Let_def maxReconnectAttempts_def)

lemma onclose_status: "connectionStatus (fst (onclose code st)) = Disconnected"
  by (simp add: onclose_def Let_def)

lemma first_delays: "map reconnectDelay [0, 1, 2, 3, 4] = [1000, 2000, 4000, 8000, 16000]"
  by (simp add: reconnectDelay_def)

lemma six_closes:
  "map (\<lambda>closes. snd (onclose 1006 (run closes (initial t0))))
        [[], [Close 1006], [Close 1006, Close 1006], [Close 1006, Close 1006, Close 1006],
         [Close 1006, Close 1006, Close 1006, Close 1006],
         [Close 1006, Close 1006, Close 1006, Close 1006, Close 1006]]
       = [Some 1000, Some 2000, Some 4000, Some 8000, Some 16000, None]"
  by (simp add: onclose_def Let_def maxReconnectAttempts_def reconnectDelay_def run_def initial_def
      keepRefs_def)

text \<open>
  C4. A close event with a code other than 1000 and a counter below 5 schedules a retry
  after min(1000 * 2^attempt, 30000) ms and counts it; a close with code 1000, or with the
  counter at 5, schedules nothing and leaves the counter and the timer ref alone. The
  delays for the counters 0 to 4 are 1, 2, 4, 8 and 16 seconds, and of six abnormal closes
  in a row from the initial state the sixth schedules nothing.
\<close>

theorem close_schedules_backoff:
  "(code \<noteq> 1000 \<and> reconnectAttempts st < 5 \<longrightarrow>
       snd (onclose code st) = Some (min (1000 * 2 ^ reconnectAttempts st) 30000)
     \<and> reconnectAttempts (fst (onclose code st)) = reconnectAttempts st + 1)
   \<and> (code = 1000 \<or> 5 \<le> reconnectAttempts st \<longrightarrow>
       snd (onclose code st) = None
     \<and> reconnectAttempts (fst (onclose code st)) = reconnectAttempts st
     \<and> reconnectTimeoutRef (fst (onclose code st)) = reconnectTimeoutRef st)
   \<and> connectionStatus (fst (onclose code st)) = Disconnected
   \<and> map reconnectDelay [0, 1, 2, 3, 4] = [1000, 2000, 4000, 8000, 16000]
   \<and> map (\<lambda>closes. snd (onclose 1006 (run closes (initial t0))))
        [[], [Close 1006], [Close 1006, Close 1006], [Close 1006, Close 1006, Close 1006],
         [Close 1006, Close 1006, Close 1006, Close 1006],
         [Close 1006, Close 1006, Close 1006, Close 1006, Close 1006]]
       = [Some 1000, Some 2000, Some 4000, Some 8000, Some 16000, None]"
  using onclose_retry [of code st] onclose_no_retry [of code st] onclose_status [of code st]
    first_delays six_closes [of t0]
  by blast

theorem close_schedules_backoff_witness:
  "(1006::nat) \<noteq> 1000 \<and> reconnectAttempts (initial 0) < 5
   \<and> snd (onclose 1006 (initial 0)) = Some 1000
   \<and> reconnectAttempts (fst (onclose 1006 (initial 0))) = 1
   \<and> ((1000::nat) = 1000 \<or> 5 \<le> reconnectAttempts (initial 0))
   \<and> snd (onclose 1000 (initial 0)) = None
   \<and> reconnectAttempts (fst (onclose 1000 (initial 0))) = 0"
proof -
  have a: "reconnectAttempts (initial 0) = 0"
    by (simp add: initial_def)
  have h1: "(1006::nat) \<noteq> 1000 \<and> reconnectAttempts (initial 0) < 5"
    by (simp add: a)
  have h2: "(1000::nat) = 1000 \<or> 5 \<le> reconnectAttempts (initial 0)"
    by simp
  from close_schedules_backoff [of 1006 "initial 0" 0] h1
  have r1: "snd (onclose 1006 (initial 0)) = Some (min (1000 * 2 ^ reconnectAttempts (initial 0)) 30000)
     \<and> reconnectAttempts (fst (onclose 1006 (initial 0))) = reconnectAttempts (initial 0) + 1"
    by blast
  from close_schedules_backoff [of 1000 "initial 0" 0] h2
  have r2: "snd (onclose 1000 (initial 0)) = None
     \<and> reconnectAttempts (fst (onclose 1000 (initial 0))) = reconnectAttempts (initial 0)"
    by blast
  show ?thesis
    using h1 h2 r1 r2 by (simp add: a)
qed

section \<open>The simulation and the connection status\<close>

lemma guard_when_captured_connected:
  "simulateRealisticParking Connected now rnd st = (None, st)"
  by (simp add: simulateRealisticParking_def)

lemma setSlotsIfAny_interval: "driftInterval (snd (setSlotsIfAny st r)) = driftInterval st"
  by (simp add: setSlotsIfAny_def split: sum.splits)

lemma commitUpdater_interval:
  "driftInterval (commitUpdater st r) = driftInterval st \<or> driftInterval (commitUpdater st r) = None"
  by (simp add: commitUpdater_def unmount_def split: sum.splits)

lemma handleWebSocketMessage_interval:
  "driftInterval (snd (handleWebSocketMessage now message st)) = driftInterval st
   \<or> driftInterval (snd (handleWebSocketMessage now message st)) = None"
  using commitUpdater_interval
  by (simp add: handleWebSocketMessage_def Let_def handleInitialData_def handleStatus_def
      handleDefault_def setSlotsIfAny_interval split: option.splits json.splits)

lemma onmessage_interval:
  "driftInterval (onmessage now frame st) = driftInterval st
   \<or> driftInterval (onmessage now frame st) = None"
  using handleWebSocketMessage_interval [of now _ "st\<lparr>lastMessageTime := now\<rparr>"]
  by (simp add: onmessage_def split: option.splits)

lemma simulate_interval:
  "driftInterval (snd (simulateRealisticParking captured now rnd st)) = driftInterval st
   \<or> driftInterval (snd (simulateRealisticParking captured now rnd st)) = None"
  by (simp add: simulateRealisticParking_def unmount_def split: sum.splits error.splits)

lemma step_interval:
  assumes "driftInterval st \<noteq> Some Connected"
  shows "driftInterval (step e st) \<noteq> Some Connected"
proof (cases e)
  case (Message now frame)
  then show ?thesis
    using assms onmessage_interval [of now frame st]
    by (auto simp add: keepRefs_def)
next
  case (DriftTick now rnd)
  show ?thesis
  proof (cases "driftInterval st")
    case None
    then show ?thesis using DriftTick by simp
  next
    case (Some captured)
    then show ?thesis
      using DriftTick assms simulate_interval [of captured now rnd st] by auto
  qed
qed (use assms in \<open>auto simp add: keepRefs_def connectWebSocket_def onopen_def onclose_def
      onerror_def Let_def driftEffect_def\<close>)

lemma installed_callback_never_connected:
  "driftInterval (run events (initial t0)) \<noteq> Some Connected"
proof -
  have "driftInterval st \<noteq> Some Connected \<Longrightarrow> driftInterval (run events st) \<noteq> Some Connected"
    for st
    unfolding run_def by (induction events arbitrary: st) (simp_all add: step_interval)
  then show ?thesis by (simp add: initial_def)
qed

lemma no_tick_after_render:
  "mounted st \<Longrightarrow> connectionStatus st = Connected \<Longrightarrow>
   step (DriftTick now rnd) (step Render st) = step Render st"
  by (simp add: driftEffect_def)

lemma reopened_state:
  "connectionStatus (run reopened (initial 0)) = Connected
   \<and> mounted (run reopened (initial 0))
   \<and> driftInterval (run reopened (initial 0)) = Some Connecting
   \<and> parkingSlots (run reopened (initial 0))
      = [JObj [(''id'', JStr ''A1''), (''state'', JStr ''free''), (''duration'', JNum 2)]]"
  by (simp add: reopened_def run_def initial_def keepRefs_def connectWebSocket_def onopen_def
      onclose_def onmessage_def driftEffect_def Let_def maxReconnectAttempts_def
      handleWebSocketMessage_def envelope_def handleInitialData_def initialDataSlots_def
      setSlotsIfAny_def js_get_def demoStore_def)

text \<open>
  C6. In the session \<open>reopened\<close> the retry has just been opened: the status is
  \<open>connected\<close>, React has not rendered yet, and the interval of the previous commit is
  still installed with a callback that captured \<open>connecting\<close>. A tick at this point passes
  the guard and ages the record A1 from duration 2 to 3, with the status \<open>connected\<close>.
\<close>

theorem stale_tick_after_open:
  "connectionStatus (run reopened (initial 0)) = Connected
   \<and> parkingSlots (run reopened (initial 0))
      = [JObj [(''id'', JStr ''A1''), (''state'', JStr ''free''), (''duration'', JNum 2)]]
   \<and> connectionStatus (step (DriftTick 60000 halfDraws) (run reopened (initial 0))) = Connected
   \<and> parkingSlots (step (DriftTick 60000 halfDraws) (run reopened (initial 0)))
      = [JObj [(''id'', JStr ''A1''), (''state'', JStr ''free''), (''duration'', JNum 3)]]"
proof -
  obtain st where st: "st = run reopened (initial 0)" by simp
  have s: "connectionStatus st = Connected" "driftInterval st = Some Connecting"
    "parkingSlots st = [JObj [(''id'', JStr ''A1''), (''state'', JStr ''free''), (''duration'', JNum 2)]]"
    using reopened_state st by simp_all
  have d: "driftFrom 60000 halfDraws 0
             [JObj [(''id'', JStr ''A1''), (''state'', JStr ''free''), (''duration'', JNum 2)]]
           = Inr [JObj [(''id'', JStr ''A1''), (''state'', JStr ''free''), (''duration'', JNum 3)]]"
    by (simp add: driftSlot_def durationPlusOne_def or_else_def js_get_def changeProbability_def
        Let_def halfDraws_def)
  have "step (DriftTick 60000 halfDraws) st
        = st\<lparr>parkingSlots := [JObj [(''id'', JStr ''A1''), (''state'', JStr ''free''), (''duration'', JNum 3)]]\<rparr>"
    using s d by (simp add: simulateRealisticParking_def)
  then show ?thesis
    using s st by simp
qed

section \<open>Dispatch on the message type\<close>

lemma handle_initial_data:
  assumes "message \<noteq> JNull" "js_get message ''type'' = Some (JStr ''initial_data'')"
  shows "handleWebSocketMessage now message st = handleInitialData now (js_get message ''data'') st"
  using assms by (simp add: handleWebSocketMessage_def Let_def)


lemma handle_bulk_update:
  assumes "message \<noteq> JNull" "js_get message ''type'' = Some (JStr ''bulk_update'')"
  shows "handleWebSocketMessage now message st
         = (logLineError (js_get message ''data''),
            commitUpdater st (bulkUpdate now (js_get message ''data'') (parkingSlots st)))"
  using assms by (simp add: handleWebSocketMessage_def Let_def)

lemma handle_single_update:
  assumes "message \<noteq> JNull" "js_get message ''type'' = Some (JStr ''single_update'')"
  shows "handleWebSocketMessage now message st
         = (logLineError (js_get message ''data''),
            commitUpdater st (singleUpdate now (js_get message ''data'') (parkingSlots st)))"
  using assms by (simp add: handleWebSocketMessage_def Let_def)

lemma envelope_simps:
  "envelope ty data \<noteq> JNull"
  "js_get (envelope ty data) ''type'' = Some (JStr ty)"
  "js_get (envelope ty data) ''data'' = Some data"
  by (simp_all add: envelope_def js_get_def)

section \<open>Full snapshots\<close>

text \<open>
  C1 (as amended). For an \<open>initial_data\<close> message whose \<open>data\<close> is an array or an object
  from which the handler extracts the list \<open>slots\<close>: a non-empty list replaces the store,
  so the ids of the store are then exactly the ids of the snapshot; an empty list leaves
  the store as it was.
\<close>

theorem snapshot_replaces_store:
  assumes "message \<noteq> JNull"
    and "js_get message ''type'' = Some (JStr ''initial_data'')"
    and "js_get message ''data'' = Some data"
    and "typeof_object data" and "data \<noteq> JNull"
    and "initialDataSlots now data = Inr slots"
  shows "parkingSlots (snd (handleWebSocketMessage now message st))
           = (if slots = [] then parkingSlots st else slots)
         \<and> (slots \<noteq> [] \<longrightarrow>
              set (map slot_id (parkingSlots (snd (handleWebSocketMessage now message st))))
                = set (map slot_id slots))"
proof -
  have "handleInitialData now (Some data) st = setSlotsIfAny st (Inr slots)"
    using assms(4,5,6) by (cases data) (simp_all add: handleInitialData_def)
  then show ?thesis
    using assms(1,2,3) by (simp add: handle_initial_data setSlotsIfAny_def)
qed

text \<open>
  With a record A1 in the store, the snapshot \<open>{slots: []}\<close> extracts the empty list and
  the store still holds A1.
\<close>

theorem empty_snapshot_counterexample:
  "initialDataSlots 0 (JObj [(''slots'', JArr [])]) = Inr []
   \<and> map slot_id (parkingSlots (snd (handleWebSocketMessage 0
        (envelope ''initial_data'' (JObj [(''slots'', JArr [])]))
        ((initial 0)\<lparr>parkingSlots := demoStore\<rparr>))))
     = [Some (JStr ''A1'')]"
  by (simp add: handleWebSocketMessage_def envelope_def Let_def handleInitialData_def
      initialDataSlots_def setSlotsIfAny_def js_get_def demoStore_def slot_id_def)

theorem snapshot_replaces_store_witness:
  "parkingSlots (snd (handleWebSocketMessage 0
        (envelope ''initial_data'' (JObj [(''slots'', JArr [a1Record])]))
        ((initial 0)\<lparr>parkingSlots := demoStore\<rparr>)))
     = [a1Record]"
proof -
  have e: "initialDataSlots 0 (JObj [(''slots'', JArr [a1Record])]) = Inr [a1Record]"
    by (simp add: initialDataSlots_def js_get_def)
  show ?thesis
    using snapshot_replaces_store [of "envelope ''initial_data'' (JObj [(''slots'', JArr [a1Record])])"
        "JObj [(''slots'', JArr [a1Record])]" 0 "[a1Record]" "(initial 0)\<lparr>parkingSlots := demoStore\<rparr>"] e
    by (simp add: envelope_simps)
qed

section \<open>Normalisation of snapshot elements\<close>

lemma dec_digits: "set (dec n) \<subseteq> set ''0123456789''"
proof (induction n rule: dec.induct)
  case (1 n)
  have m: "''0123456789'' ! k \<in> set ''0123456789''" if "k < 10" for k
    using that by (intro nth_mem) simp
  show ?case
  proof (cases "n < 10")
    case True
    then show ?thesis using m [of n] by (subst dec.simps) simp
  next
    case False
    have "n mod 10 < 10" by simp
    then show ?thesis using False 1 m [of "n mod 10"] by (subst dec.simps) simp
  qed
qed

lemma indexed_no_name:
  assumes "\<exists>c \<in> set k. c \<notin> set ''0123456789''"
  shows "map_of (indexed xs) k = None"
proof -
  have "k \<notin> set (map dec [0..<length xs])"
    using assms dec_digits by fastforce
  then show ?thesis
    unfolding indexed_def by (simp add: map_of_zip_is_None)
qed

lemma array_no_slots: "js_get (JArr xs) ''slots'' = None"
  by (simp add: js_get_def indexed_no_name)

lemma array_no_displays: "js_get (JArr xs) ''displays'' = None"
  by (simp add: js_get_def indexed_no_name)

lemma slots_field_as_received:
  "js_get data ''slots'' = Some (JArr xs) \<Longrightarrow> initialDataSlots now data = Inr xs"
  by (simp add: initialDataSlots_def)

lemma bare_array_normalized:
  "initialDataSlots now (JArr xs) = collect (map (normalizeSlot now) xs)"
  by (simp add: initialDataSlots_def array_no_slots array_no_displays)

lemma displays_array_normalized:
  "js_get data ''slots'' = None \<Longrightarrow> js_get data ''displays'' = Some (JArr ds) \<Longrightarrow>
   initialDataSlots now data = collect (map (normalizeSlot now) ds)"
  by (simp add: initialDataSlots_def)

lemma normalizeSlot_defaults:
  assumes "slot \<noteq> JNull"
  shows "\<exists>r. normalizeSlot now slot = Inr r
    \<and> (js_get slot ''state'' = None \<and> js_get slot ''status'' = None \<longrightarrow>
          js_get r ''state'' = Some (JStr ''free''))
    \<and> (js_get slot ''zone'' = None \<longrightarrow> js_get r ''zone'' = Some (JStr ''A''))
    \<and> (js_get slot ''floor'' = None \<longrightarrow> js_get r ''floor'' = Some (JNum 1))
    \<and> (js_get slot ''duration'' = None \<longrightarrow> js_get r ''duration'' = Some (JNum 0))
    \<and> (js_get slot ''lastUpdated'' = None \<and> js_get slot ''timestamp'' = None \<longrightarrow>
          js_get r ''lastUpdated'' = Some (JNum now))"
  using assms by (simp add: normalizeSlot_def js_get_def or_else_def js_or_def)

lemma scenario_store:
  "parkingSlots (snd (handleWebSocketMessage now
      (envelope ''initial_data'' (JObj [(''slots'', JArr [a1Record])])) (initial t0)))
   = [a1Record]"
  by (simp add: handleWebSocketMessage_def envelope_def Let_def handleInitialData_def
      initialDataSlots_def setSlotsIfAny_def js_get_def)

lemma a1Record_fields:
  "map (js_get a1Record) [''id'', ''state'', ''zone'', ''floor'', ''duration'', ''lastUpdated'']
   = [Some (JStr ''A1''), Some (JStr ''occupied''), Some (JStr ''A''), Some (JNum 1), None, None]"
  by (simp add: a1Record_def js_get_def)

text \<open>
  C7 (as amended). The elements of a \<open>slots\<close> array are taken as they are received: no
  field is defaulted. The elements of a \<open>displays\<close> array and of a bare array are
  rebuilt, and there a missing state (with no \<open>status\<close>) becomes \<open>free\<close>, a missing zone
  \<open>A\<close>, a missing floor 1, a missing duration 0 and a missing lastUpdated (with no
  \<open>timestamp\<close>) the current time. The scenario snapshot yields exactly one record A1 with
  state occupied, zone A and floor 1, and without a duration or a lastUpdated field.
\<close>

theorem initial_data_slots_as_received:
  "(js_get data ''slots'' = Some (JArr xs) \<longrightarrow> initialDataSlots now data = Inr xs)
   \<and> (js_get data ''slots'' = None \<and> js_get data ''displays'' = Some (JArr ds) \<longrightarrow>
        initialDataSlots now data = collect (map (normalizeSlot now) ds))
   \<and> initialDataSlots now (JArr ys) = collect (map (normalizeSlot now) ys)
   \<and> (slot \<noteq> JNull \<longrightarrow>
        (\<exists>r. normalizeSlot now slot = Inr r
          \<and> (js_get slot ''state'' = None \<and> js_get slot ''status'' = None \<longrightarrow>
                js_get r ''state'' = Some (JStr ''free''))
          \<and> (js_get slot ''zone'' = None \<longrightarrow> js_get r ''zone'' = Some (JStr ''A''))
          \<and> (js_get slot ''floor'' = None \<longrightarrow> js_get r ''floor'' = Some (JNum 1))
          \<and> (js_get slot ''duration'' = None \<longrightarrow> js_get r ''duration'' = Some (JNum 0))
          \<and> (js_get slot ''lastUpdated'' = None \<and> js_get slot ''timestamp'' = None \<longrightarrow>
                js_get r ''lastUpdated'' = Some (JNum now))))
   \<and> parkingSlots (snd (handleWebSocketMessage now
        (envelope ''initial_data'' (JObj [(''slots'', JArr [a1Record])])) (initial t0)))
      = [a1Record]
   \<and> map (js_get a1Record) [''id'', ''state'', ''zone'', ''floor'', ''duration'', ''lastUpdated'']
      = [Some (JStr ''A1''), Some (JStr ''occupied''), Some (JStr ''A''), Some (JNum 1), None, None]"
  using slots_field_as_received [of data xs now] displays_array_normalized [of data ds now]
    bare_array_normalized [of now ys] normalizeSlot_defaults [of slot now]
    scenario_store [of now t0] a1Record_fields
  by blast

text \<open>
  After the scenario snapshot the stored record A1 has no duration field, so its duration
  is not 0, and it has no lastUpdated field.
\<close>

theorem initial_data_defaults_counterexample:
  "parkingSlots (snd (handleWebSocketMessage 5000
      (envelope ''initial_data'' (JObj [(''slots'', JArr [a1Record])])) (initial 0)))
     = [a1Record]
   \<and> js_get a1Record ''duration'' = None
   \<and> js_get a1Record ''duration'' \<noteq> Some (JNum 0)
   \<and> js_get a1Record ''lastUpdated'' = None"
  by (simp add: handleWebSocketMessage_def envelope_def Let_def handleInitialData_def
      initialDataSlots_def setSlotsIfAny_def js_get_def a1Record_def)

theorem initial_data_slots_as_received_witness:
  "js_get (JObj [(''slots'', JArr [a1Record])]) ''slots'' = Some (JArr [a1Record])
   \<and> initialDataSlots 5000 (JObj [(''slots'', JArr [a1Record])]) = Inr [a1Record]
   \<and> js_get (JObj [(''displays'', JArr [b2Record])]) ''slots'' = None
   \<and> js_get (JObj [(''displays'', JArr [b2Record])]) ''displays'' = Some (JArr [b2Record])
   \<and> initialDataSlots 5000 (JObj [(''displays'', JArr [b2Record])])
       = Inr [JObj [(''id'', JStr ''B2''), (''state'', JStr ''free''), (''lastUpdated'', JNum 5000),
                    (''zone'', JStr ''A''), (''floor'', JNum 1), (''duration'', JNum 0)]]
   \<and> b2Record \<noteq> JNull
   \<and> js_get b2Record ''state'' = None \<and> js_get b2Record ''status'' = None
   \<and> js_get b2Record ''zone'' = None \<and> js_get b2Record ''floor'' = None
   \<and> js_get b2Record ''duration'' = None
   \<and> js_get b2Record ''lastUpdated'' = None \<and> js_get b2Record ''timestamp'' = None"
proof -
  have g1: "js_get (JObj [(''slots'', JArr [a1Record])]) ''slots'' = Some (JArr [a1Record])"
    by (simp add: js_get_def)
  have g2: "js_get (JObj [(''displays'', JArr [b2Record])]) ''slots'' = None
            \<and> js_get (JObj [(''displays'', JArr [b2Record])]) ''displays'' = Some (JArr [b2Record])"
    by (simp add: js_get_def)
  have g3: "b2Record \<noteq> JNull
     \<and> js_get b2Record ''state'' = None \<and> js_get b2Record ''status'' = None
     \<and> js_get b2Record ''zone'' = None \<and> js_get b2Record ''floor'' = None
     \<and> js_get b2Record ''duration'' = None
     \<and> js_get b2Record ''lastUpdated'' = None \<and> js_get b2Record ''timestamp'' = None"
    by (simp add: b2Record_def js_get_def)
  have n: "collect (map (normalizeSlot 5000) [b2Record])
       = Inr [JObj [(''id'', JStr ''B2''), (''state'', JStr ''free''), (''lastUpdated'', JNum 5000),
                    (''zone'', JStr ''A''), (''floor'', JNum 1), (''duration'', JNum 0)]]"
    by (simp add: normalizeSlot_def b2Record_def js_get_def or_else_def js_or_def)
  from initial_data_slots_as_received
    [of "JObj [(''slots'', JArr [a1Record])]" "[a1Record]" 5000 "[]" "[]" b2Record 0] g1
  have r1: "initialDataSlots 5000 (JObj [(''slots'', JArr [a1Record])]) = Inr [a1Record]"
    by blast
  from initial_data_slots_as_received
    [of "JObj [(''displays'', JArr [b2Record])]" "[]" 5000 "[b2Record]" "[]" b2Record 0] g2
  have r2: "initialDataSlots 5000 (JObj [(''displays'', JArr [b2Record])])
             = collect (map (normalizeSlot 5000) [b2Record])"
    by blast
  show ?thesis
    using g1 g2 g3 r1 r2 n by metis
qed

section \<open>Status messages\<close>

lemma pushHistory_length: "length (pushHistory now d prev) = min (length prev + 1) 10"
  by (simp add: pushHistory_def)






section \<open>Deltas\<close>

lemma strict_eq_imp_eq: "strict_eq a b \<Longrightarrow> a = b"
  by (induction a b rule: strict_eq.induct) simp_all

lemma mergeUpdate_get:
  "js_get (mergeUpdate now slot upd) k =
     (if k = ''lastUpdated'' then Some (or_else (js_get upd ''lastUpdated'') (JNum now))
      else (case js_get upd k of Some v \<Rightarrow> Some v | None \<Rightarrow> js_get slot k))"
  by (simp add: mergeUpdate_def js_get_def update_conv' merge_conv' map_add_def
      split: option.splits)

lemma mergeUpdate_id:
  assumes "strict_eq (js_get slot ''id'') (js_get upd ''id'')"
  shows "slot_id (mergeUpdate now slot upd) = slot_id slot"
  using strict_eq_imp_eq [OF assms]
  by (simp add: slot_id_def mergeUpdate_get split: option.splits)

lemma findIndexById_Some:
  "findIndexById upd slots = Inr (Some i) \<Longrightarrow>
     i < length slots \<and> upd \<noteq> JNull \<and> slots ! i \<noteq> JNull
     \<and> strict_eq (js_get (slots ! i) ''id'') (js_get upd ''id'')
     \<and> (\<forall>j < i. \<not> strict_eq (js_get (slots ! j) ''id'') (js_get upd ''id''))"
proof (induction slots arbitrary: i)
  case Nil
  then show ?case by simp
next
  case (Cons slot slots)
  show ?case
  proof (cases "strict_eq (js_get slot ''id'') (js_get upd ''id'')")
    case True
    then show ?thesis using Cons.prems by (simp split: if_splits)
  next
    case False
    from Cons.prems False obtain i' where i': "i = Suc i'" "findIndexById upd slots = Inr (Some i')"
      by (auto split: if_splits sum.splits option.splits)
    from Cons.IH [OF i'(2)] False i'(1) Cons.prems show ?thesis
      by (auto simp add: less_Suc_eq_0_disj split: if_splits)
  qed
qed

lemma findIndexById_None:
  "findIndexById upd slots = Inr None \<Longrightarrow>
     (\<forall>slot \<in> set slots. \<not> strict_eq (js_get slot ''id'') (js_get upd ''id''))"
  by (induction slots) (auto split: if_splits sum.splits option.splits)

lemma findIndexById_no_match:
  "upd \<noteq> JNull \<Longrightarrow> JNull \<notin> set slots \<Longrightarrow>
   (\<forall>slot \<in> set slots. \<not> strict_eq (js_get slot ''id'') (js_get upd ''id'')) \<Longrightarrow>
   findIndexById upd slots = Inr None"
  by (induction slots) auto

lemma applyUpdate_ids:
  assumes "applyUpdate now upd slots = Inr slots'"
  shows "map slot_id slots' = map slot_id slots"
proof (cases "findIndexById upd slots")
  case (Inl e)
  then show ?thesis using assms by (simp add: applyUpdate_def)
next
  case (Inr r)
  show ?thesis
  proof (cases r)
    case None
    then show ?thesis using assms Inr by (simp add: applyUpdate_def)
  next
    case (Some i)
    from findIndexById_Some [of upd slots i] Inr Some
    have m: "strict_eq (js_get (slots ! i) ''id'') (js_get upd ''id'')"
      and i: "i < length slots" by simp_all
    have "slots' = slots[i := mergeUpdate now (slots ! i) upd]"
      using assms Inr Some by (simp add: applyUpdate_def)
    then have "map slot_id slots' = (map slot_id slots)[i := map slot_id slots ! i]"
      using i by (simp add: map_update mergeUpdate_id [OF m])
    then show ?thesis
      by (simp only: list_update_id)
  qed
qed

lemma applyUpdates_ids:
  "applyUpdates now upds slots = Inr slots' \<Longrightarrow> map slot_id slots' = map slot_id slots"
proof (induction upds arbitrary: slots)
  case Nil
  then show ?case by simp
next
  case (Cons upd upds)
  then show ?case
    by (auto split: sum.splits dest: applyUpdate_ids)
qed

lemma bulkUpdate_ids:
  "bulkUpdate now data slots = Inr slots' \<Longrightarrow> map slot_id slots' = map slot_id slots"
  by (auto simp add: bulkUpdate_def split: option.splits json.splits dest: applyUpdates_ids)

lemma collect_Inr: "collect rs = Inr ys \<Longrightarrow> rs = map Inr ys"
  by (induction rs arbitrary: ys) (auto split: sum.splits)

lemma applyUpdate_no_match:
  assumes "upd \<noteq> JNull" "JNull \<notin> set slots"
    and "\<forall>slot \<in> set slots. \<not> strict_eq (slot_id slot) (js_get upd ''id'')"
  shows "applyUpdate now upd slots = Inr slots"
  using findIndexById_no_match [of upd slots] assms
  by (simp add: applyUpdate_def slot_id_def)

lemma applyUpdates_drop_unmatched_aux:
  "map slot_id cur = ids \<Longrightarrow> applyUpdates now upds cur = Inr slots' \<Longrightarrow>
   applyUpdates now (filter (\<lambda>upd. \<exists>i \<in> set ids. strict_eq i (js_get upd ''id'')) upds) cur
     = Inr slots'"
proof (induction upds arbitrary: cur)
  case Nil
  then show ?case by simp
next
  case (Cons upd upds)
  from Cons.prems(2) obtain cur1 where
    s1: "applyUpdate now upd cur = Inr cur1" and s2: "applyUpdates now upds cur1 = Inr slots'"
    by (auto split: sum.splits)
  have ids1: "map slot_id cur1 = ids"
    using applyUpdate_ids [OF s1] Cons.prems(1) by simp
  note ih = Cons.IH [OF ids1 s2]
  show ?case
  proof (cases "\<exists>i \<in> set ids. strict_eq i (js_get upd ''id'')")
    case True
    then show ?thesis using s1 ih by simp
  next
    case False
    have "findIndexById upd cur = Inr None"
    proof (cases "findIndexById upd cur")
      case (Inl e)
      then show ?thesis using s1 by (simp add: applyUpdate_def)
    next
      case (Inr r)
      show ?thesis
      proof (cases r)
        case None
        then show ?thesis using Inr by simp
      next
        case (Some i)
        from findIndexById_Some [of upd cur i] Inr Some
        have "i < length cur" "strict_eq (js_get (cur ! i) ''id'') (js_get upd ''id'')"
          by simp_all
        then have "\<exists>i \<in> set ids. strict_eq i (js_get upd ''id'')"
          using Cons.prems(1) by (auto simp add: slot_id_def intro!: bexI [of _ "slot_id (cur ! i)"])
        then show ?thesis using False by simp
      qed
    qed
    then have "cur1 = cur" using s1 by (simp add: applyUpdate_def)
    then show ?thesis using False ih by simp
  qed
qed

lemma applyUpdates_drop_unmatched:
  "applyUpdates now upds slots = Inr slots' \<Longrightarrow>
   applyUpdates now
     (filter (\<lambda>upd. \<exists>slot \<in> set slots. strict_eq (slot_id slot) (js_get upd ''id'')) upds) slots
     = Inr slots'"
  using applyUpdates_drop_unmatched_aux [of slots "map slot_id slots" now upds slots']
  by simp

lemma mergeUpdate_lastUpdated_given:
  "js_get upd ''lastUpdated'' = Some v \<Longrightarrow> truthy v \<Longrightarrow>
   js_get (mergeUpdate now slot upd) ''lastUpdated'' = Some v"
  by (simp add: mergeUpdate_get or_else_def)

lemma mergeUpdate_lastUpdated_now:
  "js_get upd ''lastUpdated'' = None
     \<or> (\<exists>v. js_get upd ''lastUpdated'' = Some v \<and> \<not> truthy v) \<Longrightarrow>
   js_get (mergeUpdate now slot upd) ''lastUpdated'' = Some (JNum now)"
  by (auto simp add: mergeUpdate_get or_else_def)

lemma mergeUpdate_other:
  "k \<noteq> ''lastUpdated'' \<Longrightarrow>
   js_get (mergeUpdate now slot upd) k
     = (case js_get upd k of Some v \<Rightarrow> Some v | None \<Rightarrow> js_get slot k)"
  by (simp add: mergeUpdate_get)

lemma a1_merge: "mergeUpdate 5000 a1Stamped a1Delta = a1Freed"
  by (simp add: mergeUpdate_def a1Stamped_def a1Delta_def a1Freed_def js_get_def or_else_def)

lemma a1_z9_batch: "applyUpdates 5000 [z9Delta, a1Delta] [a1Stamped] = Inr [a1Freed]"
  by (simp add: applyUpdate_def a1_merge)
     (simp add: a1Stamped_def a1Delta_def z9Delta_def js_get_def)


lemma singleUpdate_nth:
  assumes "singleUpdate now (Some upd) slots = Inr slots'"
  shows "length slots' = length slots
     \<and> (\<forall>j < length slots. slots' ! j =
           (if strict_eq (js_get (slots ! j) ''id'') (js_get upd ''id'')
            then mergeUpdate now (slots ! j) upd else slots ! j))"
proof -
  have c: "collect (map (singleUpdateSlot now upd) slots) = Inr slots'"
    using assms by (cases upd) (simp_all add: singleUpdate_def split: if_splits)
  from collect_Inr [OF c] have e: "map (singleUpdateSlot now upd) slots = map Inr slots'" .
  then have l: "length slots' = length slots"
    by (metis length_map)
  have "slots' ! j = (if strict_eq (js_get (slots ! j) ''id'') (js_get upd ''id'')
            then mergeUpdate now (slots ! j) upd else slots ! j)" if "j < length slots" for j
  proof -
    have "singleUpdateSlot now upd (slots ! j) = Inr (slots' ! j)"
      using e that l by (metis nth_map)
    then show ?thesis
      by (simp add: singleUpdateSlot_def split: if_splits)
  qed
  then show ?thesis using l by blast
qed

lemma singleUpdate_ids:
  assumes "singleUpdate now data slots = Inr slots'"
  shows "map slot_id slots' = map slot_id slots"
proof (cases "\<exists>upd. data = Some upd \<and> upd \<noteq> JNull")
  case False
  then have "slots = [] \<and> slots' = []"
    using assms by (auto simp add: singleUpdate_def split: option.splits json.splits if_splits)
  then show ?thesis by simp
next
  case True
  then obtain upd where u: "data = Some upd" by blast
  from singleUpdate_nth [OF assms [unfolded u]]
  have l: "length slots' = length slots"
    and n: "\<And>j. j < length slots \<Longrightarrow> slots' ! j =
           (if strict_eq (js_get (slots ! j) ''id'') (js_get upd ''id'')
            then mergeUpdate now (slots ! j) upd else slots ! j)"
    by blast+
  show ?thesis
  proof (rule nth_equalityI)
    show "length (map slot_id slots') = length (map slot_id slots)" using l by simp
  next
    fix j assume "j < length (map slot_id slots')"
    then have j: "j < length slots" using l by simp
    show "map slot_id slots' ! j = map slot_id slots ! j"
      using n [OF j] j l by (simp add: mergeUpdate_id)
  qed
qed

lemma singleUpdate_no_match:
  assumes "upd \<noteq> JNull" "JNull \<notin> set slots"
    and "\<forall>slot \<in> set slots. \<not> strict_eq (slot_id slot) (js_get upd ''id'')"
  shows "singleUpdate now (Some upd) slots = Inr slots"
proof -
  have "collect (map (singleUpdateSlot now upd) slots) = Inr slots"
    using assms(2,3) by (induction slots) (auto simp add: singleUpdateSlot_def slot_id_def)
  then show ?thesis
    using assms(1) by (cases upd) (simp_all add: singleUpdate_def)
qed

lemma commitUpdater_returns:
  "commitUpdater st (Inr slots') = st\<lparr>parkingSlots := slots'\<rparr>"
  by (simp add: commitUpdater_def)

lemma commitUpdater_throws: "\<not> mounted (commitUpdater st (Inl e))"
  by (simp add: commitUpdater_def unmount_def)

lemma bulk_message_returns:
  assumes "message \<noteq> JNull" "js_get message ''type'' = Some (JStr ''bulk_update'')"
    and "bulkUpdate now (js_get message ''data'') (parkingSlots st) = Inr slots'"
  shows "snd (handleWebSocketMessage now message st) = st\<lparr>parkingSlots := slots'\<rparr>
     \<and> map slot_id slots' = map slot_id (parkingSlots st)"
  using assms bulkUpdate_ids [OF assms(3)]
  by (simp add: handle_bulk_update commitUpdater_returns)

lemma single_message_returns:
  assumes "message \<noteq> JNull" "js_get message ''type'' = Some (JStr ''single_update'')"
    and "singleUpdate now (js_get message ''data'') (parkingSlots st) = Inr slots'"
  shows "snd (handleWebSocketMessage now message st) = st\<lparr>parkingSlots := slots'\<rparr>
     \<and> map slot_id slots' = map slot_id (parkingSlots st)"
  using assms singleUpdate_ids [OF assms(3)]
  by (simp add: handle_single_update commitUpdater_returns)

lemma bulk_message_throws:
  assumes "message \<noteq> JNull" "js_get message ''type'' = Some (JStr ''bulk_update'')"
    and "bulkUpdate now (js_get message ''data'') (parkingSlots st) = Inl e"
  shows "\<not> mounted (snd (handleWebSocketMessage now message st))"
  using assms by (simp add: handle_bulk_update commitUpdater_throws)

lemma single_message_throws:
  assumes "message \<noteq> JNull" "js_get message ''type'' = Some (JStr ''single_update'')"
    and "singleUpdate now (js_get message ''data'') (parkingSlots st) = Inl e"
  shows "\<not> mounted (snd (handleWebSocketMessage now message st))"
  using assms by (simp add: handle_single_update commitUpdater_throws)

lemma applyUpdate_Cons:
  assumes "slot \<noteq> JNull" "upd \<noteq> JNull"
  shows "applyUpdate now upd (slot # slots) =
     (if strict_eq (slot_id slot) (js_get upd ''id'') then Inr (mergeUpdate now slot upd # slots)
      else (case applyUpdate now upd slots of Inl e \<Rightarrow> Inl e | Inr r \<Rightarrow> Inr (slot # r)))"
  using assms by (simp add: applyUpdate_def slot_id_def split: sum.splits option.splits)

lemma applyUpdate_mergeFirst:
  "upd \<noteq> JNull \<Longrightarrow> JNull \<notin> set slots \<Longrightarrow>
   applyUpdate now upd slots = Inr (mergeFirst now upd slots)"
proof (induction slots)
  case Nil
  then show ?case by (simp add: applyUpdate_def)
next
  case (Cons slot slots)
  from Cons.prems have s: "slot \<noteq> JNull" "JNull \<notin> set slots" by auto
  show ?case
    using applyUpdate_Cons [OF s(1) Cons.prems(1), of now slots] Cons.IH [OF Cons.prems(1) s(2)]
    by simp
qed

lemma mergeUpdate_not_null: "mergeUpdate now slot upd \<noteq> JNull"
  by (simp add: mergeUpdate_def)

lemma mergeFirst_no_null: "JNull \<notin> set slots \<Longrightarrow> JNull \<notin> set (mergeFirst now upd slots)"
  by (induction slots) (auto simp add: mergeUpdate_def)

lemma applyUpdates_mergeBatch:
  "JNull \<notin> set upds \<Longrightarrow> JNull \<notin> set slots \<Longrightarrow>
   applyUpdates now upds slots = Inr (mergeBatch now upds slots)"
proof (induction upds arbitrary: slots)
  case Nil
  then show ?case by (simp add: mergeBatch_def)
next
  case (Cons upd upds)
  have u: "upd \<noteq> JNull" "JNull \<notin> set upds" using Cons.prems(1) by auto
  have "applyUpdates now (upd # upds) slots = applyUpdates now upds (mergeFirst now upd slots)"
    using applyUpdate_mergeFirst [OF u(1) Cons.prems(2)] by simp
  also have "\<dots> = Inr (mergeBatch now upds (mergeFirst now upd slots))"
    by (rule Cons.IH [OF u(2) mergeFirst_no_null [OF Cons.prems(2)]])
  finally show ?case by (simp add: mergeBatch_def)
qed

lemma singleUpdate_mergeEvery:
  assumes "upd \<noteq> JNull" "JNull \<notin> set slots"
  shows "singleUpdate now (Some upd) slots = Inr (mergeEvery now upd slots)"
proof -
  have "collect (map (singleUpdateSlot now upd) slots) = Inr (mergeEvery now upd slots)"
    using assms(2)
    by (induction slots) (auto simp add: singleUpdateSlot_def mergeEvery_def slot_id_def)
  then show ?thesis
    using assms(1) by (cases upd) (simp_all add: singleUpdate_def)
qed

lemma mergeFirst_length: "length (mergeFirst now upd slots) = length slots"
  by (induction slots) simp_all

lemma mergeFirst_nth:
  "j < length slots \<Longrightarrow>
   mergeFirst now upd slots ! j =
     (if strict_eq (slot_id (slots ! j)) (js_get upd ''id'')
         \<and> (\<forall>i < j. \<not> strict_eq (slot_id (slots ! i)) (js_get upd ''id''))
      then mergeUpdate now (slots ! j) upd else slots ! j)"
proof (induction slots arbitrary: j)
  case Nil
  then show ?case by simp
next
  case (Cons slot slots)
  show ?case
  proof (cases j)
    case 0
    then show ?thesis by simp
  next
    case (Suc k)
    then have k: "k < length slots" using Cons.prems by simp
    show ?thesis
    proof (cases "strict_eq (slot_id slot) (js_get upd ''id'')")
      case True
      then have h: "\<not> (\<forall>i < j. \<not> strict_eq (slot_id ((slot # slots) ! i)) (js_get upd ''id''))"
        using Suc by auto
      have m: "mergeFirst now upd (slot # slots) ! j = (slot # slots) ! j"
        using True Suc by simp
      show ?thesis
        using h by (simp only: m simp_thms if_False)
    next
      case False
      have e: "(\<forall>i < j. \<not> strict_eq (slot_id ((slot # slots) ! i)) (js_get upd ''id''))
            = (\<forall>i < k. \<not> strict_eq (slot_id (slots ! i)) (js_get upd ''id''))"
        using False Suc by (auto simp add: less_Suc_eq_0_disj)
      have m: "mergeFirst now upd (slot # slots) ! j = mergeFirst now upd slots ! k"
        using False Suc by simp
      have n: "(slot # slots) ! j = slots ! k"
        using Suc by simp
      show ?thesis
        by (simp only: m n e Cons.IH [OF k])
    qed
  qed
qed

lemma mergeEvery_nth:
  "j < length slots \<Longrightarrow>
   mergeEvery now upd slots ! j =
     (if strict_eq (slot_id (slots ! j)) (js_get upd ''id'')
      then mergeUpdate now (slots ! j) upd else slots ! j)"
  by (simp add: mergeEvery_def)

lemma js_get_null: "js_get JNull k = None"
  by (simp add: js_get_def)

lemma bulk_message_applies:
  assumes "message \<noteq> JNull" "js_get message ''type'' = Some (JStr ''bulk_update'')"
    and "js_get message ''data'' = Some d" "js_get d ''updates'' = Some (JArr upds)"
    and "JNull \<notin> set upds" "JNull \<notin> set (parkingSlots st)"
  shows "handleWebSocketMessage now message st
         = (None, st\<lparr>parkingSlots := mergeBatch now upds (parkingSlots st)\<rparr>)"
proof -
  have d: "d \<noteq> JNull" using assms(4) by (auto simp add: js_get_null)
  have "bulkUpdate now (Some d) (parkingSlots st) = applyUpdates now upds (parkingSlots st)"
    using d assms(4) by (cases d) (simp_all add: bulkUpdate_def)
  then have "bulkUpdate now (Some d) (parkingSlots st)
             = Inr (mergeBatch now upds (parkingSlots st))"
    using applyUpdates_mergeBatch [OF assms(5,6)] by simp
  moreover have "logLineError (Some d) = None"
    using d by (cases d) (simp_all add: logLineError_def)
  ultimately show ?thesis
    using assms(1,2,3) by (simp add: handle_bulk_update commitUpdater_returns)
qed

lemma single_message_applies:
  assumes "message \<noteq> JNull" "js_get message ''type'' = Some (JStr ''single_update'')"
    and "js_get message ''data'' = Some upd" "upd \<noteq> JNull"
    and "JNull \<notin> set (parkingSlots st)"
  shows "handleWebSocketMessage now message st
         = (None, st\<lparr>parkingSlots := mergeEvery now upd (parkingSlots st)\<rparr>)"
proof -
  have "logLineError (Some upd) = None"
    using assms(4) by (cases upd) (simp_all add: logLineError_def)
  then show ?thesis
    using assms(1,2,3) singleUpdate_mergeEvery [OF assms(4,5)]
    by (simp add: handle_single_update commitUpdater_returns)
qed

lemma mergeFirst_unmatched:
  "\<forall>slot \<in> set slots. \<not> strict_eq (slot_id slot) (js_get upd ''id'') \<Longrightarrow>
   mergeFirst now upd slots = slots"
  by (induction slots) simp_all

lemma mergeBatch_unmatched:
  "\<forall>upd \<in> set upds. \<forall>slot \<in> set slots. \<not> strict_eq (slot_id slot) (js_get upd ''id'') \<Longrightarrow>
   mergeBatch now upds slots = slots"
  unfolding mergeBatch_def by (induction upds) (simp_all add: mergeFirst_unmatched)

lemma mergeEvery_unmatched:
  "\<forall>slot \<in> set slots. \<not> strict_eq (slot_id slot) (js_get upd ''id'') \<Longrightarrow>
   mergeEvery now upd slots = slots"
  unfolding mergeEvery_def by (induction slots) simp_all

lemma unmatched_bulk_keeps_state:
  assumes "message \<noteq> JNull" "js_get message ''type'' = Some (JStr ''bulk_update'')"
    and "js_get message ''data'' = Some d" "js_get d ''updates'' = Some (JArr upds)"
    and "JNull \<notin> set upds" "JNull \<notin> set (parkingSlots st)"
    and "\<forall>upd \<in> set upds. \<forall>slot \<in> set (parkingSlots st).
           \<not> strict_eq (slot_id slot) (js_get upd ''id'')"
  shows "handleWebSocketMessage now message st = (None, st)"
  using bulk_message_applies [OF assms(1-6), of now] mergeBatch_unmatched [OF assms(7), of now]
  by simp

lemma unmatched_single_keeps_state:
  assumes "message \<noteq> JNull" "js_get message ''type'' = Some (JStr ''single_update'')"
    and "js_get message ''data'' = Some upd" "upd \<noteq> JNull"
    and "JNull \<notin> set (parkingSlots st)"
    and "\<forall>slot \<in> set (parkingSlots st). \<not> strict_eq (slot_id slot) (js_get upd ''id'')"
  shows "handleWebSocketMessage now message st = (None, st)"
  using single_message_applies [OF assms(1-5), of now] mergeEvery_unmatched [OF assms(6), of now]
  by simp

text \<open>
  C2. A delta whose id equals the id of no stored record changes nothing, in a
  \<open>bulk_update\<close> batch as in a \<open>single_update\<close>: applied to a store without \<open>null\<close>
  entries it returns the store as it is, and a batch gives the same store with or without
  its unmatched deltas. When the updater of a delta message returns, its result becomes
  the store and has the same list of ids as before, so no record is created; when it
  throws, the component is unmounted. A message whose deltas are all unmatched (none of
  them \<open>null\<close>, over a store without \<open>null\<close> entries) returns normally and leaves the
  whole state as it was.
\<close>

theorem unmatched_delta_is_discarded:
  "(upd \<noteq> JNull \<and> JNull \<notin> set slots
      \<and> (\<forall>slot \<in> set slots. \<not> strict_eq (slot_id slot) (js_get upd ''id'')) \<longrightarrow>
        applyUpdate now upd slots = Inr slots \<and> singleUpdate now (Some upd) slots = Inr slots)
   \<and> (applyUpdates now upds slots = Inr slots' \<longrightarrow>
        applyUpdates now
          (filter (\<lambda>upd. \<exists>slot \<in> set slots. strict_eq (slot_id slot) (js_get upd ''id'')) upds)
          slots = Inr slots')
   \<and> (message \<noteq> JNull \<and> js_get message ''type'' = Some (JStr ''bulk_update'')
        \<and> bulkUpdate now (js_get message ''data'') (parkingSlots st) = Inr cur \<longrightarrow>
        snd (handleWebSocketMessage now message st) = st\<lparr>parkingSlots := cur\<rparr>
        \<and> map slot_id cur = map slot_id (parkingSlots st))
   \<and> (message \<noteq> JNull \<and> js_get message ''type'' = Some (JStr ''single_update'')
        \<and> singleUpdate now (js_get message ''data'') (parkingSlots st) = Inr cur \<longrightarrow>
        snd (handleWebSocketMessage now message st) = st\<lparr>parkingSlots := cur\<rparr>
        \<and> map slot_id cur = map slot_id (parkingSlots st))
   \<and> (message \<noteq> JNull \<and> js_get message ''type'' = Some (JStr ''bulk_update'')
        \<and> bulkUpdate now (js_get message ''data'') (parkingSlots st) = Inl e \<longrightarrow>
        \<not> mounted (snd (handleWebSocketMessage now message st)))
   \<and> (message \<noteq> JNull \<and> js_get message ''type'' = Some (JStr ''single_update'')
        \<and> singleUpdate now (js_get message ''data'') (parkingSlots st) = Inl e \<longrightarrow>
        \<not> mounted (snd (handleWebSocketMessage now message st)))
   \<and> (message \<noteq> JNull \<and> js_get message ''type'' = Some (JStr ''bulk_update'')
        \<and> js_get message ''data'' = Some d \<and> js_get d ''updates'' = Some (JArr upds)
        \<and> JNull \<notin> set upds \<and> JNull \<notin> set (parkingSlots st)
        \<and> (\<forall>upd \<in> set upds. \<forall>slot \<in> set (parkingSlots st).
              \<not> strict_eq (slot_id slot) (js_get upd ''id'')) \<longrightarrow>
        handleWebSocketMessage now message st = (None, st))
   \<and> (message \<noteq> JNull \<and> js_get message ''type'' = Some (JStr ''single_update'')
        \<and> js_get message ''data'' = Some upd \<and> upd \<noteq> JNull
        \<and> JNull \<notin> set (parkingSlots st)
        \<and> (\<forall>slot \<in> set (parkingSlots st). \<not> strict_eq (slot_id slot) (js_get upd ''id'')) \<longrightarrow>
        handleWebSocketMessage now message st = (None, st))"
  using applyUpdate_no_match [of upd slots now] singleUpdate_no_match [of upd slots now]
    applyUpdates_drop_unmatched [of now upds slots slots']
    bulk_message_returns [of message now st cur] single_message_returns [of message now st cur]
    bulk_message_throws [of message now st e] single_message_throws [of message now st e]
    unmatched_bulk_keeps_state [of message d upds st now]
    unmatched_single_keeps_state [of message upd st now]
  by blast

theorem unmatched_delta_is_discarded_witness:
  "z9Delta \<noteq> JNull \<and> JNull \<notin> set [a1Stamped]
   \<and> \<not> strict_eq (slot_id a1Stamped) (js_get z9Delta ''id'')
   \<and> applyUpdate 5000 z9Delta [a1Stamped] = Inr [a1Stamped]
   \<and> singleUpdate 5000 (Some z9Delta) [a1Stamped] = Inr [a1Stamped]
   \<and> applyUpdates 5000 [z9Delta, a1Delta] [a1Stamped] = Inr [a1Freed]
   \<and> applyUpdates 5000 [a1Delta] [a1Stamped] = Inr [a1Freed]
   \<and> js_get (envelope ''bulk_update'' (JObj [(''updates'', JArr [z9Delta])])) ''type''
        = Some (JStr ''bulk_update'')
   \<and> js_get (JObj [(''updates'', JArr [z9Delta])]) ''updates'' = Some (JArr [z9Delta])
   \<and> JNull \<notin> set [z9Delta]
   \<and> handleWebSocketMessage 5000 (envelope ''bulk_update'' (JObj [(''updates'', JArr [z9Delta])]))
        ((initial 0)\<lparr>parkingSlots := [a1Stamped]\<rparr>)
      = (None, (initial 0)\<lparr>parkingSlots := [a1Stamped]\<rparr>)
   \<and> js_get (envelope ''single_update'' z9Delta) ''type'' = Some (JStr ''single_update'')
   \<and> js_get (envelope ''single_update'' z9Delta) ''data'' = Some z9Delta
   \<and> handleWebSocketMessage 5000 (envelope ''single_update'' z9Delta)
        ((initial 0)\<lparr>parkingSlots := [a1Stamped]\<rparr>)
      = (None, (initial 0)\<lparr>parkingSlots := [a1Stamped]\<rparr>)
   \<and> bulkUpdate 5000 (js_get (envelope ''bulk_update'' (JObj [])) ''data'') [a1Stamped]
      = Inl TypeError
   \<and> \<not> mounted (snd (handleWebSocketMessage 5000 (envelope ''bulk_update'' (JObj []))
        ((initial 0)\<lparr>parkingSlots := [a1Stamped]\<rparr>)))
   \<and> singleUpdate 5000 (js_get (envelope ''single_update'' JNull) ''data'') [a1Stamped]
      = Inl TypeError
   \<and> \<not> mounted (snd (handleWebSocketMessage 5000 (envelope ''single_update'' JNull)
        ((initial 0)\<lparr>parkingSlots := [a1Stamped]\<rparr>)))"
proof -
  define stA where "stA = (initial 0)\<lparr>parkingSlots := [a1Stamped]\<rparr>"
  have p: "parkingSlots stA = [a1Stamped]"
    by (simp add: stA_def)
  have h1: "z9Delta \<noteq> JNull \<and> JNull \<notin> set [a1Stamped]
      \<and> (\<forall>slot \<in> set [a1Stamped]. \<not> strict_eq (slot_id slot) (js_get z9Delta ''id''))"
    by (simp add: z9Delta_def a1Stamped_def slot_id_def js_get_def)
  have f: "filter (\<lambda>upd. \<exists>slot \<in> set [a1Stamped]. strict_eq (slot_id slot) (js_get upd ''id''))
             [z9Delta, a1Delta] = [a1Delta]"
    by (simp add: z9Delta_def a1Delta_def a1Stamped_def slot_id_def js_get_def)
  have u: "js_get (JObj [(''updates'', JArr [z9Delta])]) ''updates'' = Some (JArr [z9Delta])"
    by (simp add: js_get_def)
  have n: "JNull \<notin> set [z9Delta]"
    by (simp add: z9Delta_def)
  have h2: "\<forall>upd \<in> set [z9Delta]. \<forall>slot \<in> set (parkingSlots stA).
              \<not> strict_eq (slot_id slot) (js_get upd ''id'')"
    using h1 p by simp
  have h3: "JNull \<notin> set (parkingSlots stA)
      \<and> (\<forall>slot \<in> set (parkingSlots stA). \<not> strict_eq (slot_id slot) (js_get z9Delta ''id''))"
    using h1 p by simp
  have b: "bulkUpdate 5000 (js_get (envelope ''bulk_update'' (JObj [])) ''data'') (parkingSlots stA)
           = Inl TypeError"
    by (simp add: envelope_def js_get_def bulkUpdate_def)
  have s: "singleUpdate 5000 (js_get (envelope ''single_update'' JNull) ''data'') (parkingSlots stA)
           = Inl TypeError"
    by (simp add: envelope_def js_get_def singleUpdate_def p)
  note eb = envelope_simps [of "''bulk_update''" "JObj [(''updates'', JArr [z9Delta])]"]
  note es = envelope_simps [of "''single_update''" z9Delta]
  note eb0 = envelope_simps [of "''bulk_update''" "JObj []"]
  note es0 = envelope_simps [of "''single_update''" JNull]
  from unmatched_delta_is_discarded [where upd = z9Delta and slots = "[a1Stamped]" and now = 5000
      and upds = "[z9Delta, a1Delta]" and slots' = "[a1Freed]"] h1 a1_z9_batch
  have r1: "applyUpdate 5000 z9Delta [a1Stamped] = Inr [a1Stamped]
      \<and> singleUpdate 5000 (Some z9Delta) [a1Stamped] = Inr [a1Stamped]
      \<and> applyUpdates 5000
          (filter (\<lambda>upd. \<exists>slot \<in> set [a1Stamped]. strict_eq (slot_id slot) (js_get upd ''id''))
             [z9Delta, a1Delta]) [a1Stamped] = Inr [a1Freed]"
    by blast
  from unmatched_delta_is_discarded [where now = 5000 and upds = "[z9Delta]"
      and message = "envelope ''bulk_update'' (JObj [(''updates'', JArr [z9Delta])])"
      and st = stA and d = "JObj [(''updates'', JArr [z9Delta])]"] eb u n h2 h3
  have r2: "handleWebSocketMessage 5000
      (envelope ''bulk_update'' (JObj [(''updates'', JArr [z9Delta])])) stA = (None, stA)"
    by blast
  from unmatched_delta_is_discarded [where now = 5000 and upd = z9Delta
      and message = "envelope ''single_update'' z9Delta" and st = stA] es h1 h3
  have r3: "handleWebSocketMessage 5000 (envelope ''single_update'' z9Delta) stA = (None, stA)"
    by blast
  from unmatched_delta_is_discarded [where now = 5000
      and message = "envelope ''bulk_update'' (JObj [])" and st = stA and e = TypeError] eb0 b
  have r4: "\<not> mounted (snd (handleWebSocketMessage 5000 (envelope ''bulk_update'' (JObj [])) stA))"
    by blast
  from unmatched_delta_is_discarded [where now = 5000
      and message = "envelope ''single_update'' JNull" and st = stA and e = TypeError] es0 s
  have r5: "\<not> mounted (snd (handleWebSocketMessage 5000 (envelope ''single_update'' JNull) stA))"
    by blast
  show ?thesis
    using h1 r1 [unfolded f] a1_z9_batch eb(2) es(2,3) u n r2 r3 r4 r5 b s
    unfolding stA_def p [unfolded stA_def]
    by simp
qed

lemma scenario_delta:
  "parkingSlots (snd (handleWebSocketMessage later
      (envelope ''bulk_update'' (JObj [(''updates'', JArr [a1Delta]), (''updateCount'', JNum 1)]))
      (snd (handleWebSocketMessage now
         (envelope ''initial_data'' (JObj [(''slots'', JArr [a1Record])])) (initial t0)))))
   = [JObj [(''id'', JStr ''A1''), (''state'', JStr ''free''), (''floor'', JNum 1),
            (''zone'', JStr ''A''), (''lastUpdated'', JNum later)]]"
  by (simp add: handleWebSocketMessage_def envelope_def Let_def handleInitialData_def
      initialDataSlots_def setSlotsIfAny_def js_get_def commitUpdater_def bulkUpdate_def
      applyUpdate_def mergeUpdate_def a1Record_def a1Delta_def or_else_def)

lemma mergeFirst_records:
  "length (mergeFirst now upd slots) = length slots
   \<and> (\<forall>j < length slots. mergeFirst now upd slots ! j =
         (if strict_eq (slot_id (slots ! j)) (js_get upd ''id'')
             \<and> (\<forall>i < j. \<not> strict_eq (slot_id (slots ! i)) (js_get upd ''id''))
          then mergeUpdate now (slots ! j) upd else slots ! j))"
  using mergeFirst_nth [of _ slots now upd] by (simp add: mergeFirst_length)

lemma mergeEvery_records:
  "length (mergeEvery now upd slots) = length slots
   \<and> (\<forall>j < length slots. mergeEvery now upd slots ! j =
         (if strict_eq (slot_id (slots ! j)) (js_get upd ''id'')
          then mergeUpdate now (slots ! j) upd else slots ! j))"
  by (simp add: mergeEvery_def)

lemma delta_steps_total:
  "upd \<noteq> JNull \<and> JNull \<notin> set slots \<Longrightarrow>
   applyUpdate now upd slots = Inr (mergeFirst now upd slots)
   \<and> singleUpdate now (Some upd) slots = Inr (mergeEvery now upd slots)"
  using applyUpdate_mergeFirst [of upd slots now] singleUpdate_mergeEvery [of upd slots now]
  by blast

text \<open>
  C3 (as amended). In the record a delta is merged into, every field other than
  \<open>lastUpdated\<close> has the delta's value when the delta has the field and its prior value
  otherwise; \<open>lastUpdated\<close> is the delta's value when that is present and truthy (not 0),
  and the current time otherwise. For deltas that are not \<open>null\<close> over a store without
  \<open>null\<close> entries, a \<open>bulk_update\<close> delta rewrites the first record with its id, a batch
  applies its deltas in order, and a \<open>single_update\<close> rewrites every record with its id;
  all other records stay as they are, and the message writes the result to the store. In
  the scenario, the delta \<open>{id: A1, state: free}\<close> after the snapshot sets the state to
  free and keeps zone and floor.
\<close>

theorem delta_overwrites_given_fields:
  "(k \<noteq> ''lastUpdated'' \<longrightarrow>
      js_get (mergeUpdate now slot upd) k
        = (case js_get upd k of Some v \<Rightarrow> Some v | None \<Rightarrow> js_get slot k))
   \<and> (js_get upd ''lastUpdated'' = Some v \<and> truthy v \<longrightarrow>
        js_get (mergeUpdate now slot upd) ''lastUpdated'' = Some v)
   \<and> (js_get upd ''lastUpdated'' = None
        \<or> (\<exists>w. js_get upd ''lastUpdated'' = Some w \<and> \<not> truthy w) \<longrightarrow>
        js_get (mergeUpdate now slot upd) ''lastUpdated'' = Some (JNum now))
   \<and> (upd \<noteq> JNull \<and> JNull \<notin> set slots \<longrightarrow>
        applyUpdate now upd slots = Inr (mergeFirst now upd slots)
        \<and> singleUpdate now (Some upd) slots = Inr (mergeEvery now upd slots))
   \<and> (JNull \<notin> set upds \<and> JNull \<notin> set slots \<longrightarrow>
        applyUpdates now upds slots = Inr (mergeBatch now upds slots))
   \<and> length (mergeFirst now upd slots) = length slots
   \<and> (\<forall>j < length slots. mergeFirst now upd slots ! j =
         (if strict_eq (slot_id (slots ! j)) (js_get upd ''id'')
             \<and> (\<forall>i < j. \<not> strict_eq (slot_id (slots ! i)) (js_get upd ''id''))
          then mergeUpdate now (slots ! j) upd else slots ! j))
   \<and> length (mergeEvery now upd slots) = length slots
   \<and> (\<forall>j < length slots. mergeEvery now upd slots ! j =
         (if strict_eq (slot_id (slots ! j)) (js_get upd ''id'')
          then mergeUpdate now (slots ! j) upd else slots ! j))
   \<and> (message \<noteq> JNull \<and> js_get message ''type'' = Some (JStr ''bulk_update'')
        \<and> js_get message ''data'' = Some d \<and> js_get d ''updates'' = Some (JArr upds)
        \<and> JNull \<notin> set upds \<and> JNull \<notin> set (parkingSlots st) \<longrightarrow>
        handleWebSocketMessage now message st
          = (None, st\<lparr>parkingSlots := mergeBatch now upds (parkingSlots st)\<rparr>))
   \<and> (message \<noteq> JNull \<and> js_get message ''type'' = Some (JStr ''single_update'')
        \<and> js_get message ''data'' = Some upd \<and> upd \<noteq> JNull
        \<and> JNull \<notin> set (parkingSlots st) \<longrightarrow>
        handleWebSocketMessage now message st
          = (None, st\<lparr>parkingSlots := mergeEvery now upd (parkingSlots st)\<rparr>))
   \<and> parkingSlots (snd (handleWebSocketMessage later
        (envelope ''bulk_update'' (JObj [(''updates'', JArr [a1Delta]), (''updateCount'', JNum 1)]))
        (snd (handleWebSocketMessage now
           (envelope ''initial_data'' (JObj [(''slots'', JArr [a1Record])])) (initial t0)))))
      = [JObj [(''id'', JStr ''A1''), (''state'', JStr ''free''), (''floor'', JNum 1),
               (''zone'', JStr ''A''), (''lastUpdated'', JNum later)]]"
  using mergeUpdate_other [of k now slot upd] mergeUpdate_lastUpdated_given [of upd v now slot]
    mergeUpdate_lastUpdated_now [of upd now slot] delta_steps_total [of upd slots now]
    applyUpdates_mergeBatch [of upds slots now]
    mergeFirst_records [of now upd slots] mergeEvery_records [of now upd slots]
    bulk_message_applies [of message d upds st now]
    single_message_applies [of message upd st now]
    scenario_delta [of later now t0]
  by blast

text \<open>
  A delta \<open>{id: A1, lastUpdated: 0}\<close> handled at time 5000: the delta carries
  \<open>lastUpdated\<close>, and the record ends with \<open>lastUpdated\<close> 5000.
\<close>

theorem delta_epoch_timestamp_counterexample:
  "js_get a1Epoch ''lastUpdated'' = Some (JNum 0)
   \<and> parkingSlots (snd (handleWebSocketMessage 5000
        (envelope ''bulk_update'' (JObj [(''updates'', JArr [a1Epoch]), (''updateCount'', JNum 1)]))
        ((initial 0)\<lparr>parkingSlots := [a1Stamped]\<rparr>)))
      = [JObj [(''id'', JStr ''A1''), (''state'', JStr ''occupied''), (''lastUpdated'', JNum 5000),
               (''zone'', JStr ''A''), (''floor'', JNum 1), (''duration'', JNum 7)]]
   \<and> parkingSlots (snd (handleWebSocketMessage 5000 (envelope ''single_update'' a1Epoch)
        ((initial 0)\<lparr>parkingSlots := [a1Stamped]\<rparr>)))
      = [JObj [(''id'', JStr ''A1''), (''state'', JStr ''occupied''), (''lastUpdated'', JNum 5000),
               (''zone'', JStr ''A''), (''floor'', JNum 1), (''duration'', JNum 7)]]"
  by (simp add: handleWebSocketMessage_def envelope_def Let_def js_get_def commitUpdater_def
      bulkUpdate_def applyUpdate_def singleUpdate_def singleUpdateSlot_def mergeUpdate_def
      a1Epoch_def a1Stamped_def or_else_def)

theorem delta_overwrites_given_fields_witness:
  "''state'' \<noteq> ''lastUpdated'' \<and> ''zone'' \<noteq> ''lastUpdated''
   \<and> js_get (mergeUpdate 5000 a1Stamped a1Delta) ''state'' = Some (JStr ''free'')
   \<and> js_get (mergeUpdate 5000 a1Stamped a1Delta) ''zone'' = Some (JStr ''A'')
   \<and> js_get a1Delta ''lastUpdated'' = None
   \<and> js_get (mergeUpdate 5000 a1Stamped a1Delta) ''lastUpdated'' = Some (JNum 5000)
   \<and> js_get (JObj [(''id'', JStr ''A1''), (''lastUpdated'', JNum 4200)]) ''lastUpdated'' = Some (JNum 4200)
   \<and> truthy (JNum 4200)
   \<and> js_get (mergeUpdate 5000 a1Stamped (JObj [(''id'', JStr ''A1''), (''lastUpdated'', JNum 4200)]))
        ''lastUpdated'' = Some (JNum 4200)
   \<and> a1Delta \<noteq> JNull \<and> JNull \<notin> set [z9Delta, a1Stamped] \<and> JNull \<notin> set [z9Delta, a1Delta]
   \<and> applyUpdate 5000 a1Delta [z9Delta, a1Stamped] = Inr [z9Delta, a1Freed]
   \<and> singleUpdate 5000 (Some a1Delta) [z9Delta, a1Stamped] = Inr [z9Delta, a1Freed]
   \<and> JNull \<notin> set [a1Stamped]
   \<and> applyUpdates 5000 [z9Delta, a1Delta] [a1Stamped] = Inr [a1Freed]
   \<and> (1::nat) < length [z9Delta, a1Stamped]
   \<and> mergeFirst 5000 a1Delta [z9Delta, a1Stamped] ! 1 = a1Freed
   \<and> mergeEvery 5000 a1Delta [z9Delta, a1Stamped] ! 1 = a1Freed
   \<and> js_get (JObj [(''updates'', JArr [z9Delta, a1Delta])]) ''updates''
      = Some (JArr [z9Delta, a1Delta])
   \<and> handleWebSocketMessage 5000
        (envelope ''bulk_update'' (JObj [(''updates'', JArr [z9Delta, a1Delta])]))
        ((initial 0)\<lparr>parkingSlots := [a1Stamped]\<rparr>)
      = (None, (initial 0)\<lparr>parkingSlots := [a1Freed]\<rparr>)
   \<and> handleWebSocketMessage 5000 (envelope ''single_update'' a1Delta)
        ((initial 0)\<lparr>parkingSlots := [z9Delta, a1Stamped]\<rparr>)
      = (None, (initial 0)\<lparr>parkingSlots := [z9Delta, a1Freed]\<rparr>)"
proof -
  define stB where "stB = (initial 0)\<lparr>parkingSlots := [z9Delta, a1Stamped]\<rparr>"
  define upd42 where "upd42 = JObj [(''id'', JStr ''A1''), (''lastUpdated'', JNum 4200)]"
  have p: "parkingSlots stB = [z9Delta, a1Stamped]"
    by (simp add: stB_def)
  have g1: "js_get a1Delta ''lastUpdated'' = None"
    by (simp add: a1Delta_def js_get_def)
  have g2: "js_get upd42 ''lastUpdated'' = Some (JNum 4200) \<and> truthy (JNum 4200)"
    by (simp add: upd42_def js_get_def)
  have g3: "js_get a1Delta ''state'' = Some (JStr ''free'') \<and> js_get a1Delta ''zone'' = None
            \<and> js_get a1Stamped ''zone'' = Some (JStr ''A'')"
    by (simp add: a1Delta_def a1Stamped_def js_get_def)
  have nn: "a1Delta \<noteq> JNull \<and> JNull \<notin> set [z9Delta, a1Stamped] \<and> JNull \<notin> set [z9Delta, a1Delta]"
    by (simp add: a1Delta_def z9Delta_def a1Stamped_def)
  have mf: "mergeFirst 5000 a1Delta [z9Delta, a1Stamped] = [z9Delta, a1Freed]"
    by (simp add: mergeEvery_def mergeUpdate_def or_else_def a1Delta_def z9Delta_def a1Stamped_def
        a1Freed_def slot_id_def js_get_def)
  have me: "mergeEvery 5000 a1Delta [z9Delta, a1Stamped] = [z9Delta, a1Freed]"
    by (simp add: mergeEvery_def mergeUpdate_def or_else_def a1Delta_def z9Delta_def a1Stamped_def
        a1Freed_def slot_id_def js_get_def)
  have mb: "mergeBatch 5000 [z9Delta, a1Delta] [a1Stamped] = [a1Freed]"
    by (simp add: mergeBatch_def mergeEvery_def mergeUpdate_def or_else_def a1Delta_def z9Delta_def a1Stamped_def
        a1Freed_def slot_id_def js_get_def)
  define stA where "stA = (initial 0)\<lparr>parkingSlots := [a1Stamped]\<rparr>"
  have pa: "parkingSlots stA = [a1Stamped]"
    by (simp add: stA_def)
  have na: "JNull \<notin> set [a1Stamped]"
    by (simp add: a1Stamped_def)
  have u: "js_get (JObj [(''updates'', JArr [z9Delta, a1Delta])]) ''updates''
           = Some (JArr [z9Delta, a1Delta])"
    by (simp add: js_get_def)
  note eb = envelope_simps [of "''bulk_update''" "JObj [(''updates'', JArr [z9Delta, a1Delta])]"]
  note es = envelope_simps [of "''single_update''" a1Delta]
  note t1 = delta_overwrites_given_fields [where k = "''state''" and now = 5000 and slot = a1Stamped
      and upd = a1Delta and slots = "[z9Delta, a1Stamped]" and upds = "[z9Delta, a1Delta]"
      and message = "envelope ''single_update'' a1Delta" and st = stB]
  note t2 = delta_overwrites_given_fields [where k = "''zone''" and now = 5000 and slot = a1Stamped
      and upd = a1Delta]
  note t3 = delta_overwrites_given_fields [where now = 5000 and slot = a1Stamped and upd = upd42
      and v = "JNum 4200"]
  note t4 = delta_overwrites_given_fields [where now = 5000 and upds = "[z9Delta, a1Delta]"
      and message = "envelope ''bulk_update'' (JObj [(''updates'', JArr [z9Delta, a1Delta])])"
      and st = stA and d = "JObj [(''updates'', JArr [z9Delta, a1Delta])]"
      and slots = "[a1Stamped]"]
  from t1 have r1: "js_get (mergeUpdate 5000 a1Stamped a1Delta) ''state''
      = (case js_get a1Delta ''state'' of Some v \<Rightarrow> Some v | None \<Rightarrow> js_get a1Stamped ''state'')"
    by simp
  from t2 have r2: "js_get (mergeUpdate 5000 a1Stamped a1Delta) ''zone''
      = (case js_get a1Delta ''zone'' of Some v \<Rightarrow> Some v | None \<Rightarrow> js_get a1Stamped ''zone'')"
    by simp
  from t1 g1 have r3: "js_get (mergeUpdate 5000 a1Stamped a1Delta) ''lastUpdated'' = Some (JNum 5000)"
    by blast
  from t3 g2 have r4: "js_get (mergeUpdate 5000 a1Stamped upd42) ''lastUpdated'' = Some (JNum 4200)"
    by blast
  from t1 nn have r5: "applyUpdate 5000 a1Delta [z9Delta, a1Stamped]
        = Inr (mergeFirst 5000 a1Delta [z9Delta, a1Stamped])
      \<and> singleUpdate 5000 (Some a1Delta) [z9Delta, a1Stamped]
        = Inr (mergeEvery 5000 a1Delta [z9Delta, a1Stamped])"
    by blast
  from t4 nn na have r5b: "applyUpdates 5000 [z9Delta, a1Delta] [a1Stamped]
        = Inr (mergeBatch 5000 [z9Delta, a1Delta] [a1Stamped])"
    by blast
  from t1 es nn p have r6: "handleWebSocketMessage 5000 (envelope ''single_update'' a1Delta) stB
      = (None, stB\<lparr>parkingSlots := mergeEvery 5000 a1Delta (parkingSlots stB)\<rparr>)"
    by simp
  from t4 eb u nn na pa have r7: "handleWebSocketMessage 5000
        (envelope ''bulk_update'' (JObj [(''updates'', JArr [z9Delta, a1Delta])])) stA
      = (None, stA\<lparr>parkingSlots := mergeBatch 5000 [z9Delta, a1Delta] (parkingSlots stA)\<rparr>)"
    by simp
  have r6': "handleWebSocketMessage 5000 (envelope ''single_update'' a1Delta) stB
      = (None, (initial 0)\<lparr>parkingSlots := [z9Delta, a1Freed]\<rparr>)"
    using r6 by (simp add: p me) (simp add: stB_def)
  have r7': "handleWebSocketMessage 5000
        (envelope ''bulk_update'' (JObj [(''updates'', JArr [z9Delta, a1Delta])])) stA
      = (None, (initial 0)\<lparr>parkingSlots := [a1Freed]\<rparr>)"
    using r7 by (simp add: pa mb) (simp add: stA_def)
  show ?thesis
    using r1 r2 r3 r4 r5 r5b r6' r7' g1 g2 g3 nn na mf me mb u
    unfolding stA_def stB_def upd42_def
    by simp
qed

section \<open>A tick of the simulation\<close>

lemma durationPlusOne_number:
  "js_get slot ''duration'' = Some (JNum n) \<Longrightarrow> durationPlusOne slot = Inr (n + 1)"
  by (simp add: durationPlusOne_def or_else_def)

lemma durationPlusOne_missing:
  "js_get slot ''duration'' = None \<Longrightarrow> durationPlusOne slot = Inr 1"
  by (simp add: durationPlusOne_def or_else_def)

lemma driftSlot_flip:
  assumes "slot \<noteq> JNull" "durationPlusOne slot = Inr newDuration"
    and "draw < changeProbability slot newDuration"
  shows "\<exists>r. driftSlot now draw slot = Inr r
     \<and> js_get r ''state''
         = Some (JStr (if strict_eq (js_get slot ''state'') (Some (JStr ''free''))
                       then ''occupied'' else ''free''))
     \<and> js_get r ''duration'' = Some (JNum 0)
     \<and> js_get r ''lastUpdated'' = Some (JNum now)
     \<and> (\<forall>k. k \<noteq> ''state'' \<and> k \<noteq> ''duration'' \<and> k \<noteq> ''lastUpdated'' \<longrightarrow>
            js_get r k = js_get slot k)"
  using assms by (simp add: driftSlot_def js_get_def update_conv')

lemma driftSlot_stay:
  assumes "slot \<noteq> JNull" "durationPlusOne slot = Inr newDuration"
    and "\<not> draw < changeProbability slot newDuration"
  shows "\<exists>r. driftSlot now draw slot = Inr r
     \<and> js_get r ''duration'' = Some (JNum newDuration)
     \<and> (\<forall>k. k \<noteq> ''duration'' \<longrightarrow> js_get r k = js_get slot k)"
  using assms by (simp add: driftSlot_def js_get_def update_conv')

text \<open>
  C5. With the draw 0.01 below the probability 0.02, a record whose state is \<open>available\<close>
  gets the state \<open>free\<close>, duration 0 and the current time: it stays vacant instead of
  becoming occupied.
\<close>

theorem drift_available_becomes_free:
  "changeProbability availableLong 16 = 2 / 100
   \<and> driftSlot 60000 (1 / 100) availableLong
      = Inr (JObj [(''id'', JStr ''A7''), (''state'', JStr ''free''),
                   (''lastUpdated'', JNum 60000), (''zone'', JStr ''A''), (''floor'', JNum 2),
                   (''duration'', JNum 0)])"
  by (simp add: driftSlot_def durationPlusOne_def changeProbability_def or_else_def js_get_def
      availableLong_def Let_def)

section \<open>The two spellings of vacant\<close>

lemma free_available_counted_alike:
  "js_get slot ''state'' = Some (JStr ''free'') \<or> js_get slot ''state'' = Some (JStr ''available'')
   \<Longrightarrow> isFreeSlot slot \<and> \<not> isOccupiedSlot slot"
  by (auto simp add: isFreeSlot_def isOccupiedSlot_def)

text \<open>
  C8. For two records that differ only in \<open>free\<close> against \<open>available\<close>, both vacant for
  16 minutes at this tick: the probability is 0.03 for \<open>free\<close> and 0.02 for \<open>available\<close>,
  and with the draw 0.025 the \<open>free\<close> record becomes occupied while the \<open>available\<close> one
  only ages. The statistics count both as free.
\<close>

theorem drift_available_differs_from_free:
  "changeProbability freeLong 16 = 3 / 100
   \<and> changeProbability availableLong 16 = 2 / 100
   \<and> driftSlot 60000 (25 / 1000) freeLong
      = Inr (JObj [(''id'', JStr ''A7''), (''state'', JStr ''occupied''),
                   (''lastUpdated'', JNum 60000), (''zone'', JStr ''A''), (''floor'', JNum 2),
                   (''duration'', JNum 0)])
   \<and> driftSlot 60000 (25 / 1000) availableLong
      = Inr (JObj [(''id'', JStr ''A7''), (''state'', JStr ''available''),
                   (''lastUpdated'', JNum 1000), (''zone'', JStr ''A''), (''floor'', JNum 2),
                   (''duration'', JNum 16)])
   \<and> stats None [freeLong]
      = Inr \<lparr> totalSlots = 1, freeSlots = 1, occupiedSlots = 0, occupancyRate = 0 \<rparr>
   \<and> stats None [availableLong]
      = Inr \<lparr> totalSlots = 1, freeSlots = 1, occupiedSlots = 0, occupancyRate = 0 \<rparr>"
  by (simp add: driftSlot_def durationPlusOne_def changeProbability_def or_else_def js_get_def
      availableLong_def freeLong_def Let_def stats_def isFreeSlot_def isOccupiedSlot_def)

end
